theory Spec2Isabelle
  imports Main "HOL-Library.AList"
begin

section \<open>DefaultPartitionKeyResolver\<close>

text \<open>
  JavaScript numbers are doubles; every intermediate value of the hash below is an
  integer of magnitude below \<open>2 ^ 53\<close>, so the arithmetic is exact and is modelled on
  \<open>int\<close>. The bit operators \<open><<\<close> and \<open>&\<close> first convert their operands with
  ToInt32, the signed wrap-around to 32 bits, which is written out.
\<close>

definition ToInt32 :: "int \<Rightarrow> int" where
  "ToInt32 x = (x + 2 ^ 31) mod 2 ^ 32 - 2 ^ 31"

text \<open>\<open>hash << 5\<close>\<close>

definition shiftLeft5 :: "int \<Rightarrow> int" where
  "shiftLeft5 hash = ToInt32 (ToInt32 hash * 2 ^ 5)"

text \<open>\<open>a & a\<close>\<close>

definition andSelf :: "int \<Rightarrow> int" where
  "andSelf a = ToInt32 a"

text \<open>
  One iteration of the loop of \<open>resolve\<close>:
  \<open>hash = ((hash << 5) - hash) + char; hash = hash & hash\<close>.
\<close>

definition hashChar :: "int \<Rightarrow> nat \<Rightarrow> int" where
  "hashChar hash char = andSelf ((shiftLeft5 hash - hash) + int char)"

text \<open>
  The remainder operator \<open>%\<close> on integer-valued numbers: the result takes the sign of
  the dividend, and a zero divisor gives NaN, which is \<open>None\<close> here.
\<close>

definition jsRemainder :: "int \<Rightarrow> int \<Rightarrow> int option" where
  "jsRemainder a b = (if b = 0 then None else Some (sgn a * (\<bar>a\<bar> mod \<bar>b\<bar>)))"

text \<open>
  \<open>resolve\<close> on the sequence of UTF-16 code units that \<open>charCodeAt\<close> reads:
  the loop is a left fold from \<open>hash = 0\<close>, and the result is
  \<open>Math.abs(hash) % this.partitionCount\<close>.
\<close>

definition resolveUnits :: "int \<Rightarrow> nat list \<Rightarrow> int option" where
  "resolveUnits partitionCount units =
     jsRemainder \<bar>foldl hashChar 0 units\<bar> partitionCount"

text \<open>The code units of a string of one-byte characters.\<close>

definition charCodes :: "string \<Rightarrow> nat list" where
  "charCodes s = map of_char s"

definition resolve :: "int \<Rightarrow> string \<Rightarrow> int option" where
  "resolve partitionCount sequenceId = resolveUnits partitionCount (charCodes sequenceId)"

section \<open>Events\<close>

text \<open>
  A thrown JavaScript \<open>Error\<close> is a value \<open>Error message\<close>; a function of the
  source that can throw returns \<open>error + 'a\<close>, with \<open>Inl\<close> for the exception.
\<close>

datatype error = Error string

text \<open>
  A value of type \<open>any\<close>: a string, which the in-memory adapter compares with event
  subjects, or any other value. \<open>Record<string, any>\<close> is a map from property names.
\<close>

datatype 'v any = AString string | AValue 'v

type_synonym 'v Record = "string \<rightharpoonup> 'v any"

text \<open>
  \<open>RawEvent\<close> (fields \<open>id\<close>, \<open>type\<close>, \<open>source\<close>, \<open>subject\<close>, \<open>time\<close>, \<open>data\<close>
  and the optional \<open>metadata\<close>).
\<close>

record 'v RawEvent =
  ev_id :: string
  ev_type :: string
  ev_source :: string
  ev_subject :: string
  ev_time :: string
  ev_data :: "'v Record"
  ev_metadata :: "'v Record option"

section \<open>The upcaster chain\<close>

record 'v UpcasterResult =
  res_type :: string
  res_data :: "'v Record"

text \<open>
  The interface \<open>EventUpcaster\<close>. \<open>upcast\<close> is code of the integrator and may throw.
\<close>

record 'v EventUpcaster =
  canUpcast :: "'v RawEvent \<Rightarrow> bool"
  upcast :: "'v RawEvent \<Rightarrow> error + 'v UpcasterResult list"

text \<open>
  The body of the inner loop of \<open>EventUpcasters.upcast\<close> for one event \<open>evt\<close>: the
  events it pushes to \<open>newEvents\<close>. Each result is \<open>{...evt, type, data}\<close>.
\<close>

definition upcastEvent :: "'v EventUpcaster \<Rightarrow> 'v RawEvent \<Rightarrow> error + 'v RawEvent list" where
  "upcastEvent upcaster evt =
     (if canUpcast upcaster evt
      then (case upcast upcaster evt of
              Inl e \<Rightarrow> Inl e
            | Inr results \<Rightarrow>
                Inr (map (\<lambda>result. evt\<lparr>ev_type := res_type result, ev_data := res_data result\<rparr>)
                       results))
      else Inr [evt])"

text \<open>The inner loop \<open>for (const evt of events)\<close>: one pass of one upcaster.\<close>

fun upcastPass :: "'v EventUpcaster \<Rightarrow> 'v RawEvent list \<Rightarrow> error + 'v RawEvent list" where
  "upcastPass upcaster [] = Inr []"
| "upcastPass upcaster (evt # events) =
     (case upcastEvent upcaster evt of
        Inl e \<Rightarrow> Inl e
      | Inr pushed \<Rightarrow>
          (case upcastPass upcaster events of
             Inl e \<Rightarrow> Inl e
           | Inr newEvents \<Rightarrow> Inr (pushed @ newEvents)))"

text \<open>The outer loop \<open>for (const upcaster of this.upcasters)\<close>, with \<open>events = newEvents\<close>.\<close>

fun upcastPasses :: "'v EventUpcaster list \<Rightarrow> 'v RawEvent list \<Rightarrow> error + 'v RawEvent list" where
  "upcastPasses [] events = Inr events"
| "upcastPasses (upcaster # upcasters) events =
     (case upcastPass upcaster events of
        Inl e \<Rightarrow> Inl e
      | Inr newEvents \<Rightarrow> upcastPasses upcasters newEvents)"

text \<open>\<open>EventUpcasters.upcast\<close>: the passes start from \<open>[event]\<close>.\<close>

definition EventUpcasters_upcast :: "'v EventUpcaster list \<Rightarrow> 'v RawEvent \<Rightarrow> error + 'v RawEvent list" where
  "EventUpcasters_upcast upcasters event = upcastPasses upcasters [event]"

text \<open>
  What an output may differ in from the event it comes from: \<open>type\<close> and \<open>data\<close>.
\<close>

definition inherits :: "'v RawEvent \<Rightarrow> 'v RawEvent \<Rightarrow> bool" where
  "inherits out event \<longleftrightarrow>
     ev_id out = ev_id event \<and> ev_subject out = ev_subject event
     \<and> ev_source out = ev_source event \<and> ev_time out = ev_time event
     \<and> ev_metadata out = ev_metadata event"

section \<open>The in-memory event store adapter\<close>

text \<open>
  \<open>InMemoryAdapter\<close> of \<open>examples/custom-adapter\<close>, the adapter of this repository
  that settles what \<open>lowerBound\<close> means. JavaScript truthiness is written out: an
  absent string and the empty string are both falsy.
\<close>

definition truthy :: "string option \<Rightarrow> bool" where
  "truthy s \<longleftrightarrow> (case s of None \<Rightarrow> False | Some str \<Rightarrow> str \<noteq> [])"

text \<open>\<open>s || null\<close> on a string or null.\<close>

definition orNull :: "string option \<Rightarrow> string option" where
  "orNull s = (if truthy s then s else None)"

record StreamOptions =
  lowerBound :: "string option"
  includeLowerBound :: "bool option"
  upperBound :: "string option"
  includeUpperBound :: "bool option"
  latestByEventType :: "string option"

record 'v Precondition =
  pc_type :: string
  pc_payload :: "'v Record"

record 'v EventToPublish =
  pub_source :: string
  pub_subject :: string
  pub_type :: string
  pub_data :: "'v Record"
  pub_metadata :: "'v Record option"
  pub_preconditions :: "'v Precondition list option"

text \<open>
  The adapter's fields \<open>events\<close> and \<open>idCounter\<close>; \<open>adapter_clock\<close> is what
  \<open>new Date().toISOString()\<close> returns, an input of the model.
\<close>

record 'v InMemoryAdapter =
  adapter_events :: "'v RawEvent list"
  adapter_idCounter :: nat
  adapter_clock :: string

text \<open>\<open>Array.prototype.findIndex\<close>, with \<open>None\<close> for \<open>-1\<close>.\<close>

fun findIndex :: "('a \<Rightarrow> bool) \<Rightarrow> 'a list \<Rightarrow> nat option" where
  "findIndex P [] = None"
| "findIndex P (x # xs) = (if P x then Some 0 else map_option Suc (findIndex P xs))"

text \<open>\<open>s.startsWith(p)\<close>\<close>

definition startsWith :: "string \<Rightarrow> string \<Rightarrow> bool" where
  "startsWith s p \<longleftrightarrow> take (length p) s = p"

definition filterEventsBySubject :: "'v InMemoryAdapter \<Rightarrow> string \<Rightarrow> bool \<Rightarrow> 'v RawEvent list" where
  "filterEventsBySubject adapter subject recursive =
     (if recursive
      then filter (\<lambda>e. ev_subject e = subject \<or> startsWith (ev_subject e) (subject @ ''/''))
             (adapter_events adapter)
      else filter (\<lambda>e. ev_subject e = subject) (adapter_events adapter))"

definition applyLowerBound :: "StreamOptions option \<Rightarrow> 'v RawEvent list \<Rightarrow> 'v RawEvent list" where
  "applyLowerBound options filteredEvents =
     (case options of
        None \<Rightarrow> filteredEvents
      | Some opts \<Rightarrow>
          if truthy (lowerBound opts)
          then (case findIndex (\<lambda>e. Some (ev_id e) = lowerBound opts) filteredEvents of
                  None \<Rightarrow> filteredEvents
                | Some lowerIndex \<Rightarrow>
                    drop (lowerIndex + (if includeLowerBound opts = Some True then 0 else 1))
                      filteredEvents)
          else filteredEvents)"

definition applyUpperBound :: "StreamOptions option \<Rightarrow> 'v RawEvent list \<Rightarrow> 'v RawEvent list" where
  "applyUpperBound options filteredEvents =
     (case options of
        None \<Rightarrow> filteredEvents
      | Some opts \<Rightarrow>
          if truthy (upperBound opts)
          then (case findIndex (\<lambda>e. Some (ev_id e) = upperBound opts) filteredEvents of
                  None \<Rightarrow> filteredEvents
                | Some upperIndex \<Rightarrow>
                    take (upperIndex + (if includeUpperBound opts = Some True then 1 else 0))
                      filteredEvents)
          else filteredEvents)"

text \<open>
  The \<open>latestByEventType\<close> filter: a JavaScript \<open>Map\<close> from subject to event keeps the
  position of a key's first insertion, as \<open>AList.update\<close> does.
\<close>

definition applyLatestByEventType :: "StreamOptions option \<Rightarrow> 'v RawEvent list \<Rightarrow> 'v RawEvent list" where
  "applyLatestByEventType options filteredEvents =
     (case options of
        None \<Rightarrow> filteredEvents
      | Some opts \<Rightarrow>
          if truthy (latestByEventType opts)
          then map snd
                 (foldl (\<lambda>latestByType event.
                           if Some (ev_type event) = latestByEventType opts
                           then AList.update (ev_subject event) event latestByType
                           else latestByType)
                    [] filteredEvents)
          else filteredEvents)"

definition streamEvents ::
  "'v InMemoryAdapter \<Rightarrow> string \<Rightarrow> StreamOptions option \<Rightarrow> bool \<Rightarrow> 'v RawEvent list" where
  "streamEvents adapter subject options recursive =
     applyLatestByEventType options
       (applyUpperBound options
          (applyLowerBound options (filterEventsBySubject adapter subject recursive)))"

text \<open>
  \<open>observeEvents\<close> yields the historical events of \<open>streamEvents\<close> and returns.
\<close>

definition observeEvents ::
  "'v InMemoryAdapter \<Rightarrow> string \<Rightarrow> StreamOptions option \<Rightarrow> bool \<Rightarrow> 'v RawEvent list" where
  "observeEvents adapter subject options recursive = streamEvents adapter subject options recursive"

text \<open>A string between single quotes, as the template literals of the messages have it.\<close>

definition quoted :: "string \<Rightarrow> string" where
  "quoted s = [CHR 0x27] @ s @ [CHR 0x27]"

text \<open>
  \<open>checkPrecondition\<close>: only \<open>isSubjectNew\<close> is checked; \<open>e.subject === subject\<close> holds
  when the payload's \<open>subject\<close> is that string.
\<close>

definition checkPrecondition :: "'v InMemoryAdapter \<Rightarrow> 'v Precondition \<Rightarrow> error option" where
  "checkPrecondition adapter precondition =
     (if pc_type precondition = ''isSubjectNew''
      then (case pc_payload precondition ''subject'' of
              Some (AString subject) \<Rightarrow>
                if list_ex (\<lambda>e. ev_subject e = subject) (adapter_events adapter)
                then Some (Error (''Precondition failed: subject '' @ quoted subject
                                  @ '' already exists''))
                else None
            | _ \<Rightarrow> None)
      else None)"

fun checkPreconditions :: "'v InMemoryAdapter \<Rightarrow> 'v Precondition list \<Rightarrow> error option" where
  "checkPreconditions adapter [] = None"
| "checkPreconditions adapter (precondition # preconditions) =
     (case checkPrecondition adapter precondition of
        Some e \<Rightarrow> Some e
      | None \<Rightarrow> checkPreconditions adapter preconditions)"

text \<open>The decimal numeral of a counter, as a template literal prints it.\<close>

fun showNat :: "nat \<Rightarrow> string" where
  "showNat n =
     (if n < 10 then [char_of (48 + n)]
      else showNat (n div 10) @ [char_of (48 + n mod 10)])"

declare showNat.simps [simp del]

text \<open>One iteration of the loop that creates and stores the events.\<close>

definition storeEvent :: "'v InMemoryAdapter \<Rightarrow> 'v EventToPublish \<Rightarrow> 'v InMemoryAdapter \<times> 'v RawEvent" where
  "storeEvent adapter event =
     (let rawEvent = \<lparr>ev_id = ''event-'' @ showNat (adapter_idCounter adapter),
                      ev_type = pub_type event,
                      ev_source = pub_source event,
                      ev_subject = pub_subject event,
                      ev_time = adapter_clock adapter,
                      ev_data = pub_data event,
                      ev_metadata = Some (case pub_metadata event of
                                            None \<Rightarrow> Map.empty
                                          | Some m \<Rightarrow> m)\<rparr>
      in (adapter\<lparr>adapter_events := adapter_events adapter @ [rawEvent],
                  adapter_idCounter := Suc (adapter_idCounter adapter)\<rparr>,
          rawEvent))"

fun storeEvents ::
  "'v InMemoryAdapter \<Rightarrow> 'v EventToPublish list \<Rightarrow> 'v InMemoryAdapter \<times> 'v RawEvent list" where
  "storeEvents adapter [] = (adapter, [])"
| "storeEvents adapter (event # rest) =
     (case storeEvent adapter event of
        (adapter1, rawEvent) \<Rightarrow>
          (case storeEvents adapter1 rest of
             (adapter2, publishedEvents) \<Rightarrow> (adapter2, rawEvent # publishedEvents)))"

definition publishEvents ::
  "'v InMemoryAdapter \<Rightarrow> 'v EventToPublish list \<Rightarrow> 'v Precondition list option
   \<Rightarrow> error + ('v InMemoryAdapter \<times> 'v RawEvent list)" where
  "publishEvents adapter toPublish preconditions =
     (case (case preconditions of
              None \<Rightarrow> None
            | Some pcs \<Rightarrow> checkPreconditions adapter pcs) of
        Some e \<Rightarrow> Inl e
      | None \<Rightarrow> Inr (storeEvents adapter toPublish))"

section \<open>The state rebuilding cache\<close>

datatype SourcingMode = SM_NONE | SM_LOCAL | SM_RECURSIVE

text \<open>The string value of the enum, as the template literal of \<open>buildKey\<close> prints it.\<close>

fun sourcingModeString :: "SourcingMode \<Rightarrow> string" where
  "sourcingModeString SM_NONE = ''NONE''"
| "sourcingModeString SM_LOCAL = ''LOCAL''"
| "sourcingModeString SM_RECURSIVE = ''RECURSIVE''"

text \<open>\<open>CacheKey\<close>; a class is known by its \<open>name\<close>, which is all the code reads of it.\<close>

record CacheKey =
  key_subject :: string
  key_instanceClass :: string
  key_sourcingMode :: SourcingMode

text \<open>
  \<open>CacheValue\<close>. The merger of the router returns \<open>currentEventId!\<close> and
  \<open>currentInstance!\<close>, which may be null, so both fields are optional here; the \<open>Map\<close>
  \<open>sourcedSubjectIds\<close> is an association list in insertion order.
\<close>

record 's CacheValue =
  cv_eventId :: "string option"
  cv_instance :: "'s option"
  cv_sourcedSubjectIds :: "(string \<times> string) list"

text \<open>
  \<open>InMemoryStateCache\<close>: the \<open>Map\<close> \<open>cache\<close> in insertion order, and \<open>capacity\<close>.
\<close>

record 's InMemoryStateCache =
  cache_entries :: "(string \<times> 's CacheValue) list"
  cache_capacity :: int

datatype 's StateRebuildingCache =
    NoStateRebuildingCache
  | InMemoryStateCache "'s InMemoryStateCache"

definition buildKey :: "CacheKey \<Rightarrow> string" where
  "buildKey key =
     key_subject key @ '':'' @ key_instanceClass key @ '':''
     @ sourcingModeString (key_sourcingMode key)"

text \<open>
  \<open>InMemoryStateCache.fetchAndMerge\<close> up to \<open>await merger(cached)\<close>: the lookup, and
  the removal of the entry found.
\<close>

definition fetchCached ::
  "'s InMemoryStateCache \<Rightarrow> CacheKey \<Rightarrow> 's CacheValue option \<times> 's InMemoryStateCache" where
  "fetchCached c key =
     (let cacheKey = buildKey key;
          cached = map_of (cache_entries c) cacheKey
      in (cached,
          case cached of
            None \<Rightarrow> c
          | Some _ \<Rightarrow> c\<lparr>cache_entries := AList.delete cacheKey (cache_entries c)\<rparr>))"

text \<open>
  \<open>InMemoryStateCache.fetchAndMerge\<close> after the merger has returned: \<open>cache.set\<close>, and
  the eviction of the oldest key when the size exceeds the capacity.
\<close>

definition storeMerged ::
  "'s InMemoryStateCache \<Rightarrow> CacheKey \<Rightarrow> 's CacheValue \<Rightarrow> 's InMemoryStateCache" where
  "storeMerged c key merged =
     (let cacheKey = buildKey key;
          entries = AList.update cacheKey merged (cache_entries c)
      in if int (length entries) > cache_capacity c
         then (case entries of
                 [] \<Rightarrow> c\<lparr>cache_entries := entries\<rparr>
               | (firstKey, _) # _ \<Rightarrow> c\<lparr>cache_entries := AList.delete firstKey entries\<rparr>)
         else c\<lparr>cache_entries := entries\<rparr>)"

text \<open>
  \<open>fetchAndMerge\<close> of both caches. The merger is a callback with effects of its own, on
  a state \<open>'x\<close> that is passed through; when it throws, the in-memory cache has already
  removed the entry it found.
\<close>

definition fetchAndMerge ::
  "'s StateRebuildingCache \<Rightarrow> CacheKey
   \<Rightarrow> ('s CacheValue option \<Rightarrow> 'x \<Rightarrow> (error + 's CacheValue) \<times> 'x) \<Rightarrow> 'x
   \<Rightarrow> (error + 's CacheValue) \<times> 's StateRebuildingCache \<times> 'x" where
  "fetchAndMerge c key merger x =
     (case c of
        NoStateRebuildingCache \<Rightarrow>
          (case merger None x of (result, x1) \<Rightarrow> (result, NoStateRebuildingCache, x1))
      | InMemoryStateCache mem \<Rightarrow>
          (case fetchCached mem key of
             (cached, mem1) \<Rightarrow>
               (case merger cached x of
                  (Inl e, x1) \<Rightarrow> (Inl e, InMemoryStateCache mem1, x1)
                | (Inr merged, x1) \<Rightarrow>
                    (Inr merged, InMemoryStateCache (storeMerged mem1 key merged), x1))))"

section \<open>The command router\<close>

datatype SubjectCondition = SC_NONE | SC_NEW | SC_EXISTS

text \<open>
  An object with a class: \<open>constructor.name\<close> and its own properties. Commands, and
  the events that handlers publish and receive, are such objects.
\<close>

record 'v DomainObject =
  constructorName :: string
  props :: "'v Record"

text \<open>
  A \<open>Command\<close>: its object, \<open>getSubject()\<close>, and \<open>getSubjectCondition()\<close> when the
  optional method is there.
\<close>

record 'v Command =
  cmd_object :: "'v DomainObject"
  getSubject :: string
  getSubjectCondition :: "SubjectCondition option"

text \<open>What \<open>publisher.publish\<close> pushes to \<open>capturedEvents\<close>.\<close>

record 'v Captured =
  cap_event :: "'v DomainObject"
  cap_metadata :: "'v Record"
  cap_preconditions :: "'v Precondition list"

text \<open>
  A command handler, by the arity (\<open>handler.length\<close>) that \<open>send\<close> dispatches on: 2, 3,
  or anything else. It returns its result with the events it has published in order, or
  throws.
\<close>

datatype ('s, 'r, 'v) CommandHandler =
    ForCommand "'v Command \<Rightarrow> error + 'r \<times> 'v Captured list"
  | ForInstanceAndCommand "'s option \<Rightarrow> 'v Command \<Rightarrow> error + 'r \<times> 'v Captured list"
  | ForInstanceAndCommandAndMetadata
      "'s option \<Rightarrow> 'v Command \<Rightarrow> 'v Record \<Rightarrow> error + 'r \<times> 'v Captured list"

record ('s, 'r, 'v) CommandHandlerDefinition =
  ch_instanceClass :: string
  ch_commandClass :: string
  ch_handler :: "('s, 'r, 'v) CommandHandler"
  ch_sourcingMode :: SourcingMode

text \<open>
  A state rebuilding handler, by the arity that \<open>applyStateRebuilding\<close> dispatches on:
  2; 3, where the third argument is the raw event when there is one and the metadata
  otherwise; 4; anything else.
\<close>

datatype ('s, 'v) StateRebuildingHandler =
    FromObject "'s option \<Rightarrow> 'v DomainObject \<Rightarrow> error + 's"
  | FromObjectAndRawEventOrMetadata
      "'s option \<Rightarrow> 'v DomainObject \<Rightarrow> 'v RawEvent + 'v Record \<Rightarrow> error + 's"
  | FromObjectAndMetadataAndSubject
      "'s option \<Rightarrow> 'v DomainObject \<Rightarrow> 'v Record \<Rightarrow> string \<Rightarrow> error + 's"
  | FromObjectAndMetadataAndSubjectAndRawEvent
      "'s option \<Rightarrow> 'v DomainObject \<Rightarrow> 'v Record \<Rightarrow> string \<Rightarrow> 'v RawEvent option \<Rightarrow> error + 's"

record ('s, 'v) StateRebuildingHandlerDefinition =
  srh_instanceClass :: string
  srh_eventClass :: string
  srh_handler :: "('s, 'v) StateRebuildingHandler"

datatype MetadataPropagationMode = MP_NONE | MP_SHALLOW | MP_DEEP

record MetadataPropagation =
  mp_mode :: MetadataPropagationMode
  mp_keys :: "string list option"

text \<open>What \<open>EventDataMarshaller.deserialize\<close> returns.\<close>

record 'v EventData =
  ed_metadata :: "'v Record"
  ed_payload :: "'v DomainObject"

text \<open>
  The fields of the router that do not change. The type resolver and the marshaller are
  interfaces whose methods may throw; classes are passed by name.
\<close>

record ('s, 'r, 'v) CommandRouterConfig =
  getEventType :: "string \<Rightarrow> error + string"
  getClass :: "string \<Rightarrow> error + string"
  serialize :: "'v EventData \<Rightarrow> error + 'v Record"
  deserialize :: "'v Record \<Rightarrow> string \<Rightarrow> error + 'v EventData"
  commandHandlers :: "('s, 'r, 'v) CommandHandlerDefinition list"
  stateRebuildingHandlers :: "('s, 'v) StateRebuildingHandlerDefinition list"
  eventSource :: string
  cfg_upcasters :: "'v EventUpcaster list option"
  metadataPropagation :: MetadataPropagation

text \<open>
  The calls a run makes to its collaborators, in order: the adapter's \<open>streamEvents\<close>
  (with its subject and options), a command handler (with the name of the command's
  class), and the adapter's \<open>publishEvents\<close> (with the number of events). This is what a
  counting stub would record.
\<close>

datatype effect =
    StreamEventsCalled string "StreamOptions option"
  | CommandHandlerInvoked string
  | PublishEventsCalled nat

text \<open>The mutable state a \<open>send\<close> works on: the store, the cache, and the calls made.\<close>

record ('s, 'v) RouterState =
  eventStore :: "'v InMemoryAdapter"
  stateCache :: "'s StateRebuildingCache"
  effects :: "effect list"

text \<open>
  \<open>this.commandHandlers.get(commandName)\<close>: the constructor fills the map in the order
  of the configuration, so the last definition of a name is the one found.
\<close>

definition commandHandlersGet ::
  "('s, 'r, 'v) CommandRouterConfig \<Rightarrow> string \<Rightarrow> ('s, 'r, 'v) CommandHandlerDefinition option" where
  "commandHandlersGet cfg commandName =
     find (\<lambda>def. ch_commandClass def = commandName) (rev (commandHandlers cfg))"

text \<open>
  \<open>this.stateRebuildingHandlers.get(instanceClass.name) || []\<close>: the definitions of
  that instance class, in the order of the configuration.
\<close>

definition stateRebuildingHandlersGet ::
  "('s, 'r, 'v) CommandRouterConfig \<Rightarrow> string \<Rightarrow> ('s, 'v) StateRebuildingHandlerDefinition list" where
  "stateRebuildingHandlersGet cfg instanceClass =
     filter (\<lambda>def. srh_instanceClass def = instanceClass) (stateRebuildingHandlers cfg)"

text \<open>The call of one state rebuilding handler, by arity.\<close>

fun invokeStateRebuildingHandler ::
  "('s, 'v) StateRebuildingHandler \<Rightarrow> 's option \<Rightarrow> 'v DomainObject \<Rightarrow> 'v Record \<Rightarrow> string
   \<Rightarrow> 'v RawEvent option \<Rightarrow> error + 's" where
  "invokeStateRebuildingHandler (FromObject h) inst event metadata subject rawEvent =
     h inst event"
| "invokeStateRebuildingHandler (FromObjectAndRawEventOrMetadata h) inst event metadata subject rawEvent =
     (case rawEvent of
        Some raw \<Rightarrow> h inst event (Inl raw)
      | None \<Rightarrow> h inst event (Inr metadata))"
| "invokeStateRebuildingHandler (FromObjectAndMetadataAndSubject h) inst event metadata subject rawEvent =
     h inst event metadata subject"
| "invokeStateRebuildingHandler (FromObjectAndMetadataAndSubjectAndRawEvent h) inst event metadata subject rawEvent =
     h inst event metadata subject rawEvent"

text \<open>
  The loop of \<open>applyStateRebuilding\<close> over the handlers of the instance class: a handler
  whose event class has the event's name replaces \<open>instance\<close>; a handler that throws
  ends the loop with its exception.
\<close>

fun applyHandlers ::
  "('s, 'v) StateRebuildingHandlerDefinition list \<Rightarrow> 's option \<Rightarrow> 'v DomainObject \<Rightarrow> 'v Record
   \<Rightarrow> string \<Rightarrow> 'v RawEvent option \<Rightarrow> error + 's option" where
  "applyHandlers [] inst event metadata subject rawEvent = Inr inst"
| "applyHandlers (handlerDef # handlers) inst event metadata subject rawEvent =
     (if srh_eventClass handlerDef = constructorName event
      then (case invokeStateRebuildingHandler (srh_handler handlerDef) inst event metadata
                   subject rawEvent of
              Inl e \<Rightarrow> Inl e
            | Inr inst1 \<Rightarrow> applyHandlers handlers (Some inst1) event metadata subject rawEvent)
      else applyHandlers handlers inst event metadata subject rawEvent)"

definition applyStateRebuilding ::
  "('s, 'r, 'v) CommandRouterConfig \<Rightarrow> 's option \<Rightarrow> 'v DomainObject \<Rightarrow> 'v Record \<Rightarrow> string
   \<Rightarrow> string \<Rightarrow> 'v RawEvent option \<Rightarrow> error + 's option" where
  "applyStateRebuilding cfg inst event metadata subject instanceClass rawEvent =
     applyHandlers (stateRebuildingHandlersGet cfg instanceClass) inst event metadata subject
       rawEvent"

text \<open>The variables \<open>currentInstance\<close>, \<open>currentEventId\<close> and \<open>currentSourced\<close> of the merger.\<close>

record 's Merge =
  currentInstance :: "'s option"
  currentEventId :: "string option"
  currentSourced :: "(string \<times> string) list"

text \<open>
  The body of the loop over the upcasted events: the \<open>try\<close> block resolves the class,
  deserializes, applies the handlers and then records the event's id; the \<open>catch\<close>
  continues with the variables as they were.
\<close>

definition applyUpcasted ::
  "('s, 'r, 'v) CommandRouterConfig \<Rightarrow> string \<Rightarrow> 's Merge \<Rightarrow> 'v RawEvent \<Rightarrow> 's Merge" where
  "applyUpcasted cfg instanceClass m upcastedEvent =
     (case getClass cfg (ev_type upcastedEvent) of
        Inl _ \<Rightarrow> m
      | Inr eventClass \<Rightarrow>
          (case deserialize cfg (ev_data upcastedEvent) eventClass of
             Inl _ \<Rightarrow> m
           | Inr eventData \<Rightarrow>
               (case applyStateRebuilding cfg (currentInstance m) (ed_payload eventData)
                       (ed_metadata eventData) (ev_subject upcastedEvent) instanceClass
                       (Some upcastedEvent) of
                  Inl _ \<Rightarrow> m
                | Inr inst \<Rightarrow>
                    \<lparr>currentInstance = inst,
                     currentEventId = Some (ev_id upcastedEvent),
                     currentSourced =
                       AList.update (ev_subject upcastedEvent) (ev_id upcastedEvent)
                         (currentSourced m)\<rparr>)))"

text \<open>\<open>this.upcasters ? this.upcasters.upcast(rawEvent) : [rawEvent]\<close>\<close>

definition upcastedEvents ::
  "'v EventUpcaster list option \<Rightarrow> 'v RawEvent \<Rightarrow> error + 'v RawEvent list" where
  "upcastedEvents ups rawEvent =
     (case ups of
        None \<Rightarrow> Inr [rawEvent]
      | Some us \<Rightarrow> EventUpcasters_upcast us rawEvent)"

text \<open>
  The body of the loop over the streamed raw events; upcasting is outside the \<open>try\<close>
  block, so an upcaster that throws ends the merger with its exception.
\<close>

definition applyRawEvent ::
  "('s, 'r, 'v) CommandRouterConfig \<Rightarrow> string \<Rightarrow> 's Merge \<Rightarrow> 'v RawEvent \<Rightarrow> error + 's Merge" where
  "applyRawEvent cfg instanceClass m rawEvent =
     (case upcastedEvents (cfg_upcasters cfg) rawEvent of
        Inl e \<Rightarrow> Inl e
      | Inr ues \<Rightarrow> Inr (foldl (applyUpcasted cfg instanceClass) m ues))"

fun applyRawEvents ::
  "('s, 'r, 'v) CommandRouterConfig \<Rightarrow> string \<Rightarrow> 's Merge \<Rightarrow> 'v RawEvent list \<Rightarrow> error + 's Merge" where
  "applyRawEvents cfg instanceClass m [] = Inr m"
| "applyRawEvents cfg instanceClass m (rawEvent # rest) =
     (case applyRawEvent cfg instanceClass m rawEvent of
        Inl e \<Rightarrow> Inl e
      | Inr m1 \<Rightarrow> applyRawEvents cfg instanceClass m1 rest)"

text \<open>
  The merger before its loop: the variables read from the cached value
  (\<open>cached?.instance || null\<close>, where an instance is an object and so truthy;
  \<open>cached?.eventId || null\<close>; \<open>cached?.sourcedSubjectIds || new Map()\<close>) and the options
  of the stream.
\<close>

definition mergeStart :: "'s CacheValue option \<Rightarrow> 's Merge" where
  "mergeStart cached =
     (case cached of
        None \<Rightarrow> \<lparr>currentInstance = None, currentEventId = None, currentSourced = []\<rparr>
      | Some cv \<Rightarrow>
          \<lparr>currentInstance = cv_instance cv,
           currentEventId = orNull (cv_eventId cv),
           currentSourced = cv_sourcedSubjectIds cv\<rparr>)"

definition streamOptions :: "'s Merge \<Rightarrow> StreamOptions option" where
  "streamOptions m =
     (if truthy (currentEventId m)
      then Some \<lparr>lowerBound = currentEventId m, includeLowerBound = Some False,
                 upperBound = None, includeUpperBound = None, latestByEventType = None\<rparr>
      else None)"

text \<open>The merger's loop and its return value.\<close>

definition mergeFinish ::
  "('s, 'r, 'v) CommandRouterConfig \<Rightarrow> string \<Rightarrow> 's Merge \<Rightarrow> 'v RawEvent list
   \<Rightarrow> error + 's CacheValue" where
  "mergeFinish cfg instanceClass m streamed =
     (case applyRawEvents cfg instanceClass m streamed of
        Inl e \<Rightarrow> Inl e
      | Inr m1 \<Rightarrow>
          Inr \<lparr>cv_eventId = currentEventId m1, cv_instance = currentInstance m1,
               cv_sourcedSubjectIds = currentSourced m1\<rparr>)"

text \<open>
  The merger that \<open>rebuildState\<close> passes to the cache. It reads the store and records
  its call of \<open>streamEvents\<close>.
\<close>

definition merger ::
  "('s, 'r, 'v) CommandRouterConfig \<Rightarrow> 'v InMemoryAdapter \<Rightarrow> string \<Rightarrow> string \<Rightarrow> bool
   \<Rightarrow> 's CacheValue option \<Rightarrow> effect list \<Rightarrow> (error + 's CacheValue) \<times> effect list" where
  "merger cfg store subject instanceClass recursive cached effs =
     (let m = mergeStart cached;
          options = streamOptions m
      in (mergeFinish cfg instanceClass m (streamEvents store subject options recursive),
          effs @ [StreamEventsCalled subject options]))"

text \<open>\<open>rebuildState\<close>: the instance and \<open>lastEventId\<close>, or the exception of the merger.\<close>

definition rebuildState ::
  "('s, 'r, 'v) CommandRouterConfig \<Rightarrow> ('s, 'v) RouterState \<Rightarrow> string \<Rightarrow> string \<Rightarrow> SourcingMode
   \<Rightarrow> (error + 's option \<times> string option) \<times> ('s, 'v) RouterState" where
  "rebuildState cfg st subject instanceClass sourcingMode =
     (if sourcingMode = SM_NONE then (Inr (None, None), st)
      else
        (let recursive = (sourcingMode = SM_RECURSIVE);
             key = \<lparr>key_subject = subject, key_instanceClass = instanceClass,
                    key_sourcingMode = sourcingMode\<rparr>
         in (case fetchAndMerge (stateCache st) key
                    (merger cfg (eventStore st) subject instanceClass recursive) (effects st) of
               (result, cache1, effs1) \<Rightarrow>
                 (case result of
                    Inl e \<Rightarrow> Inl e
                  | Inr cacheValue \<Rightarrow> Inr (cv_instance cacheValue, cv_eventId cacheValue),
                  st\<lparr>stateCache := cache1, effects := effs1\<rparr>))))"

definition validateSubjectCondition ::
  "string \<Rightarrow> SubjectCondition \<Rightarrow> 's option \<Rightarrow> string option \<Rightarrow> error option" where
  "validateSubjectCondition subject condition inst lastEventId =
     (if condition = SC_NEW
      then (if lastEventId \<noteq> None
            then Some (Error (''Subject '' @ quoted subject
                              @ '' must be new (not exist) but it already exists''))
            else None)
      else if condition = SC_EXISTS
      then (if lastEventId = None
            then Some (Error (''Subject '' @ quoted subject @ '' must exist but it does not''))
            else None)
      else None)"

definition propagateMetadata ::
  "MetadataPropagation \<Rightarrow> 'v Record \<Rightarrow> 'v Record \<Rightarrow> 'v Record" where
  "propagateMetadata mp commandMetadata eventMetadata =
     (if mp_mode mp = MP_NONE then eventMetadata
      else if mp_mode mp = MP_DEEP then commandMetadata ++ eventMetadata
      else (case mp_keys mp of
              Some keys \<Rightarrow>
                foldl (\<lambda>propagated key.
                         case commandMetadata key of
                           None \<Rightarrow> propagated
                         | Some v \<Rightarrow> propagated(key \<mapsto> v))
                  eventMetadata keys
            | None \<Rightarrow> eventMetadata))"

text \<open>Step 4 of \<open>send\<close>: the call of the command handler, by arity.\<close>

fun invokeCommandHandler ::
  "('s, 'r, 'v) CommandHandler \<Rightarrow> 's option \<Rightarrow> 'v Command \<Rightarrow> 'v Record
   \<Rightarrow> error + 'r \<times> 'v Captured list" where
  "invokeCommandHandler (ForCommand h) inst command metadata = h command"
| "invokeCommandHandler (ForInstanceAndCommand h) inst command metadata = h inst command"
| "invokeCommandHandler (ForInstanceAndCommandAndMetadata h) inst command metadata =
     h inst command metadata"

text \<open>
  Step 5 of \<open>send\<close>: the loop that folds the captured events into \<open>updatedInstance\<close>,
  with no raw event; a handler that throws ends \<open>send\<close>.
\<close>

fun applyCaptured ::
  "('s, 'r, 'v) CommandRouterConfig \<Rightarrow> string \<Rightarrow> string \<Rightarrow> 's option \<Rightarrow> 'v Captured list
   \<Rightarrow> error + 's option" where
  "applyCaptured cfg subject instanceClass updatedInstance [] = Inr updatedInstance"
| "applyCaptured cfg subject instanceClass updatedInstance (captured # rest) =
     (case applyStateRebuilding cfg updatedInstance (cap_event captured) (cap_metadata captured)
             subject instanceClass None of
        Inl e \<Rightarrow> Inl e
      | Inr inst \<Rightarrow> applyCaptured cfg subject instanceClass inst rest)"

text \<open>Step 6 of \<open>send\<close>: one element of \<open>eventsToPublish\<close>, and the \<open>map\<close> over the captured events.\<close>

definition toPublish ::
  "('s, 'r, 'v) CommandRouterConfig \<Rightarrow> string \<Rightarrow> 'v Record \<Rightarrow> 'v Captured
   \<Rightarrow> error + 'v EventToPublish" where
  "toPublish cfg subject metadata captured =
     (case getEventType cfg (constructorName (cap_event captured)) of
        Inl e \<Rightarrow> Inl e
      | Inr eventType \<Rightarrow>
          (case serialize cfg
                  \<lparr>ed_metadata = propagateMetadata (metadataPropagation cfg) metadata
                                   (cap_metadata captured),
                   ed_payload = cap_event captured\<rparr> of
             Inl e \<Rightarrow> Inl e
           | Inr eventData \<Rightarrow>
               Inr \<lparr>pub_source = eventSource cfg, pub_subject = subject, pub_type = eventType,
                    pub_data = eventData, pub_metadata = Some (cap_metadata captured),
                    pub_preconditions = Some (cap_preconditions captured)\<rparr>))"

fun eventsToPublish ::
  "('s, 'r, 'v) CommandRouterConfig \<Rightarrow> string \<Rightarrow> 'v Record \<Rightarrow> 'v Captured list
   \<Rightarrow> error + 'v EventToPublish list" where
  "eventsToPublish cfg subject metadata [] = Inr []"
| "eventsToPublish cfg subject metadata (captured # rest) =
     (case toPublish cfg subject metadata captured of
        Inl e \<Rightarrow> Inl e
      | Inr event \<Rightarrow>
          (case eventsToPublish cfg subject metadata rest of
             Inl e \<Rightarrow> Inl e
           | Inr events \<Rightarrow> Inr (event # events)))"

text \<open>Step 6 of \<open>send\<close>, and the return of the handler's result.\<close>

definition publishCaptured ::
  "('s, 'r, 'v) CommandRouterConfig \<Rightarrow> ('s, 'v) RouterState \<Rightarrow> string \<Rightarrow> 'v Record
   \<Rightarrow> 'v Captured list \<Rightarrow> 'r \<Rightarrow> (error + 'r) \<times> ('s, 'v) RouterState" where
  "publishCaptured cfg st subject metadata capturedEvents result =
     (if length capturedEvents > 0
      then (case eventsToPublish cfg subject metadata capturedEvents of
              Inl e \<Rightarrow> (Inl e, st)
            | Inr events \<Rightarrow>
                (let allPreconditions = concat (map cap_preconditions capturedEvents);
                     st1 = st\<lparr>effects := effects st @ [PublishEventsCalled (length events)]\<rparr>
                 in (case publishEvents (eventStore st) events (Some allPreconditions) of
                       Inl e \<Rightarrow> (Inl e, st1)
                     | Inr (store1, _) \<Rightarrow> (Inr result, st1\<lparr>eventStore := store1\<rparr>))))
      else (Inr result, st))"

text \<open>Steps 3 to 6 of \<open>send\<close>, from the rebuilt instance on.\<close>

definition executeCommand ::
  "('s, 'r, 'v) CommandRouterConfig \<Rightarrow> ('s, 'r, 'v) CommandHandlerDefinition
   \<Rightarrow> ('s, 'v) RouterState \<Rightarrow> 'v Command \<Rightarrow> 'v Record \<Rightarrow> 's option
   \<Rightarrow> (error + 'r) \<times> ('s, 'v) RouterState" where
  "executeCommand cfg handlerDefinition st command metadata inst =
     (let st1 = st\<lparr>effects := effects st
                     @ [CommandHandlerInvoked (constructorName (cmd_object command))]\<rparr>
      in (case invokeCommandHandler (ch_handler handlerDefinition) inst command metadata of
            Inl e \<Rightarrow> (Inl e, st1)
          | Inr (result, capturedEvents) \<Rightarrow>
              (case applyCaptured cfg (getSubject command) (ch_instanceClass handlerDefinition) inst
                      capturedEvents of
                 Inl e \<Rightarrow> (Inl e, st1)
               | Inr updatedInstance \<Rightarrow>
                   publishCaptured cfg st1 (getSubject command) metadata capturedEvents result)))"

text \<open>\<open>CommandRouter.send\<close>\<close>

definition send ::
  "('s, 'r, 'v) CommandRouterConfig \<Rightarrow> ('s, 'v) RouterState \<Rightarrow> 'v Command \<Rightarrow> 'v Record
   \<Rightarrow> (error + 'r) \<times> ('s, 'v) RouterState" where
  "send cfg st command metadata =
     (let commandName = constructorName (cmd_object command)
      in (case commandHandlersGet cfg commandName of
            None \<Rightarrow> (Inl (Error (''No command handler registered for '' @ commandName)), st)
          | Some handlerDefinition \<Rightarrow>
              (let subject = getSubject command;
                   subjectCondition = (case getSubjectCondition command of
                                         None \<Rightarrow> SC_NONE
                                       | Some c \<Rightarrow> c)
               in (case rebuildState cfg st subject (ch_instanceClass handlerDefinition)
                          (ch_sourcingMode handlerDefinition) of
                     (Inl e, st1) \<Rightarrow> (Inl e, st1)
                   | (Inr (inst, lastEventId), st1) \<Rightarrow>
                       (case validateSubjectCondition subject subjectCondition inst lastEventId of
                          Some e \<Rightarrow> (Inl e, st1)
                        | None \<Rightarrow> executeCommand cfg handlerDefinition st1 command metadata inst)))))"

section \<open>Rebuilds that overlap\<close>

text \<open>
  \<open>send\<close>, \<open>rebuildState\<close>, \<open>fetchAndMerge\<close> and the merger are \<open>async\<close> functions: a
  call runs synchronously up to its first suspension. With the sourcing mode \<open>NONE\<close>,
  \<open>rebuildState\<close> returns before it does anything else, and nothing of the rebuild is
  left. Otherwise its first suspension is the first iteration of \<open>for await\<close> over the
  adapter's stream. Up to there a rebuild has looked its key up in the cache (and
  removed the entry found), read the merger's variables from the cached value, and
  called \<open>streamEvents\<close>, whose generator has filtered the store. What is left for after
  the suspension is the merger's loop, \<open>cache.set\<close> and the eviction.
\<close>

record ('s, 'v) PendingRebuild =
  pending_key :: CacheKey
  pending_merge :: "'s Merge"
  pending_streamed :: "'v RawEvent list"

text \<open>The first part of \<open>rebuildState\<close>: \<open>None\<close> when it has returned already.\<close>

definition beginRebuild ::
  "('s, 'r, 'v) CommandRouterConfig \<Rightarrow> ('s, 'v) RouterState \<Rightarrow> string \<Rightarrow> string \<Rightarrow> SourcingMode
   \<Rightarrow> ('s, 'v) PendingRebuild option \<times> ('s, 'v) RouterState" where
  "beginRebuild cfg st subject instanceClass sourcingMode =
     (if sourcingMode = SM_NONE then (None, st)
      else
        (let recursive = (sourcingMode = SM_RECURSIVE);
             key = \<lparr>key_subject = subject, key_instanceClass = instanceClass,
                    key_sourcingMode = sourcingMode\<rparr>;
             (cached, cache1) =
               (case stateCache st of
                  NoStateRebuildingCache \<Rightarrow> (None, NoStateRebuildingCache)
                | InMemoryStateCache mem \<Rightarrow>
                    (case fetchCached mem key of
                       (cached, mem1) \<Rightarrow> (cached, InMemoryStateCache mem1)));
             m = mergeStart cached;
             options = streamOptions m
         in (Some \<lparr>pending_key = key, pending_merge = m,
                   pending_streamed = streamEvents (eventStore st) subject options recursive\<rparr>,
             st\<lparr>stateCache := cache1,
                effects := effects st @ [StreamEventsCalled subject options]\<rparr>)))"

text \<open>
  The second part of \<open>rebuildState\<close>: for the sourcing mode \<open>NONE\<close> only the value
  \<open>{ instance: null, lastEventId: null }\<close> that it has returned.
\<close>

definition finishRebuild ::
  "('s, 'r, 'v) CommandRouterConfig \<Rightarrow> ('s, 'v) RouterState \<Rightarrow> ('s, 'v) PendingRebuild option
   \<Rightarrow> (error + 's option \<times> string option) \<times> ('s, 'v) RouterState" where
  "finishRebuild cfg st suspended =
     (case suspended of
        None \<Rightarrow> (Inr (None, None), st)
      | Some pending \<Rightarrow>
          (case mergeFinish cfg (key_instanceClass (pending_key pending)) (pending_merge pending)
                  (pending_streamed pending) of
             Inl e \<Rightarrow> (Inl e, st)
           | Inr merged \<Rightarrow>
               (Inr (cv_instance merged, cv_eventId merged),
                st\<lparr>stateCache :=
                     (case stateCache st of
                        NoStateRebuildingCache \<Rightarrow> NoStateRebuildingCache
                      | InMemoryStateCache mem \<Rightarrow>
                          InMemoryStateCache (storeMerged mem (pending_key pending) merged))\<rparr>)))"

text \<open>
  Rebuilds that are started in one turn, as by \<open>Promise.all\<close> over several \<open>send\<close>
  calls: each runs to its first suspension before the next is started, and they are
  resumed afterwards, in the order they were started.
\<close>

fun beginRebuilds ::
  "('s, 'r, 'v) CommandRouterConfig \<Rightarrow> ('s, 'v) RouterState \<Rightarrow> CacheKey list
   \<Rightarrow> ('s, 'v) PendingRebuild option list \<times> ('s, 'v) RouterState" where
  "beginRebuilds cfg st [] = ([], st)"
| "beginRebuilds cfg st (key # keys) =
     (case beginRebuild cfg st (key_subject key) (key_instanceClass key) (key_sourcingMode key) of
        (pending, st1) \<Rightarrow>
          (case beginRebuilds cfg st1 keys of
             (pendings, st2) \<Rightarrow> (pending # pendings, st2)))"

fun finishRebuilds ::
  "('s, 'r, 'v) CommandRouterConfig \<Rightarrow> ('s, 'v) RouterState
   \<Rightarrow> ('s, 'v) PendingRebuild option list
   \<Rightarrow> (error + 's option \<times> string option) list \<times> ('s, 'v) RouterState" where
  "finishRebuilds cfg st [] = ([], st)"
| "finishRebuilds cfg st (pending # pendings) =
     (case finishRebuild cfg st pending of
        (result, st1) \<Rightarrow>
          (case finishRebuilds cfg st1 pendings of
             (results, st2) \<Rightarrow> (result # results, st2)))"

definition concurrentRebuilds ::
  "('s, 'r, 'v) CommandRouterConfig \<Rightarrow> ('s, 'v) RouterState \<Rightarrow> CacheKey list
   \<Rightarrow> (error + 's option \<times> string option) list \<times> ('s, 'v) RouterState" where
  "concurrentRebuilds cfg st keys =
     (case beginRebuilds cfg st keys of
        (pendings, st1) \<Rightarrow> finishRebuilds cfg st1 pendings)"

text \<open>
  The same two parts of \<open>send\<close>. For a command without handler \<open>send\<close> throws at once.
  Otherwise its first suspension is that of its rebuild (with the sourcing mode \<open>NONE\<close>,
  its own \<open>await\<close> of the rebuild's result); the rest of the rebuild, the check of the
  subject condition, the handler and the publication come after it.
\<close>

datatype ('s, 'r, 'v) PendingSend =
    Thrown error
  | AwaitingRebuild "('s, 'r, 'v) CommandHandlerDefinition" "('s, 'v) PendingRebuild option"

definition beginSend ::
  "('s, 'r, 'v) CommandRouterConfig \<Rightarrow> ('s, 'v) RouterState \<Rightarrow> 'v Command
   \<Rightarrow> ('s, 'r, 'v) PendingSend \<times> ('s, 'v) RouterState" where
  "beginSend cfg st command =
     (let commandName = constructorName (cmd_object command)
      in (case commandHandlersGet cfg commandName of
            None \<Rightarrow> (Thrown (Error (''No command handler registered for '' @ commandName)), st)
          | Some handlerDefinition \<Rightarrow>
              (case beginRebuild cfg st (getSubject command) (ch_instanceClass handlerDefinition)
                      (ch_sourcingMode handlerDefinition) of
                 (pending, st1) \<Rightarrow> (AwaitingRebuild handlerDefinition pending, st1))))"

definition finishSend ::
  "('s, 'r, 'v) CommandRouterConfig \<Rightarrow> ('s, 'v) RouterState \<Rightarrow> 'v Command \<Rightarrow> 'v Record
   \<Rightarrow> ('s, 'r, 'v) PendingSend \<Rightarrow> (error + 'r) \<times> ('s, 'v) RouterState" where
  "finishSend cfg st command metadata pendingSend =
     (case pendingSend of
        Thrown e \<Rightarrow> (Inl e, st)
      | AwaitingRebuild handlerDefinition pending \<Rightarrow>
          (let subject = getSubject command;
               subjectCondition = (case getSubjectCondition command of
                                     None \<Rightarrow> SC_NONE
                                   | Some c \<Rightarrow> c)
           in (case finishRebuild cfg st pending of
                 (Inl e, st1) \<Rightarrow> (Inl e, st1)
               | (Inr (inst, lastEventId), st1) \<Rightarrow>
                   (case validateSubjectCondition subject subjectCondition inst lastEventId of
                      Some e \<Rightarrow> (Inl e, st1)
                    | None \<Rightarrow> executeCommand cfg handlerDefinition st1 command metadata inst))))"

text \<open>
  Calls of \<open>send\<close> that are started in one turn, each with its command and metadata:
  each runs to its first suspension before the next is started. Every call of
  \<open>streamEvents\<close> is made there; the calls are resumed afterwards, in the order they were
  started.
\<close>

fun beginSends ::
  "('s, 'r, 'v) CommandRouterConfig \<Rightarrow> ('s, 'v) RouterState \<Rightarrow> ('v Command \<times> 'v Record) list
   \<Rightarrow> (('v Command \<times> 'v Record) \<times> ('s, 'r, 'v) PendingSend) list \<times> ('s, 'v) RouterState" where
  "beginSends cfg st [] = ([], st)"
| "beginSends cfg st ((command, metadata) # rest) =
     (case beginSend cfg st command of
        (pending, st1) \<Rightarrow>
          (case beginSends cfg st1 rest of
             (pendings, st2) \<Rightarrow> (((command, metadata), pending) # pendings, st2)))"

fun finishSends ::
  "('s, 'r, 'v) CommandRouterConfig \<Rightarrow> ('s, 'v) RouterState
   \<Rightarrow> (('v Command \<times> 'v Record) \<times> ('s, 'r, 'v) PendingSend) list
   \<Rightarrow> (error + 'r) list \<times> ('s, 'v) RouterState" where
  "finishSends cfg st [] = ([], st)"
| "finishSends cfg st (((command, metadata), pending) # pendings) =
     (case finishSend cfg st command metadata pending of
        (result, st1) \<Rightarrow>
          (case finishSends cfg st1 pendings of
             (results, st2) \<Rightarrow> (result # results, st2)))"

definition concurrentSends ::
  "('s, 'r, 'v) CommandRouterConfig \<Rightarrow> ('s, 'v) RouterState \<Rightarrow> ('v Command \<times> 'v Record) list
   \<Rightarrow> (error + 'r) list \<times> ('s, 'v) RouterState" where
  "concurrentSends cfg st sends =
     (case beginSends cfg st sends of
        (pendings, st1) \<Rightarrow> finishSends cfg st1 pendings)"

text \<open>
  The cache key \<open>{ subject, instanceClass, sourcingMode }\<close> of the rebuild that \<open>send\<close>
  makes for a command: none for a command without handler, or with the sourcing mode
  \<open>NONE\<close>.
\<close>

definition cacheKeyOf :: "('s, 'r, 'v) CommandRouterConfig \<Rightarrow> 'v Command \<Rightarrow> CacheKey option" where
  "cacheKeyOf cfg command =
     (case commandHandlersGet cfg (constructorName (cmd_object command)) of
        None \<Rightarrow> None
      | Some handlerDefinition \<Rightarrow>
          if ch_sourcingMode handlerDefinition = SM_NONE then None
          else Some \<lparr>key_subject = getSubject command,
                     key_instanceClass = ch_instanceClass handlerDefinition,
                     key_sourcingMode = ch_sourcingMode handlerDefinition\<rparr>)"

text \<open>The calls of \<open>streamEvents\<close> among the calls made.\<close>

fun isStreamEventsCalled :: "effect \<Rightarrow> bool" where
  "isStreamEventsCalled (StreamEventsCalled _ _) = True"
| "isStreamEventsCalled _ = False"

fun isCommandHandlerInvoked :: "effect \<Rightarrow> bool" where
  "isCommandHandlerInvoked (CommandHandlerInvoked _) = True"
| "isCommandHandlerInvoked _ = False"

fun isPublishEventsCalled :: "effect \<Rightarrow> bool" where
  "isPublishEventsCalled (PublishEventsCalled _) = True"
| "isPublishEventsCalled _ = False"

section \<open>Cold caches\<close>

text \<open>A cache that holds nothing for a key: the no-op cache, or no entry under the key.\<close>

definition coldCache :: "'s StateRebuildingCache \<Rightarrow> CacheKey \<Rightarrow> bool" where
  "coldCache c key \<longleftrightarrow>
     (case c of
        NoStateRebuildingCache \<Rightarrow> True
      | InMemoryStateCache mem \<Rightarrow> map_of (cache_entries mem) (buildKey key) = None)"

text \<open>What \<open>rebuildState\<close> returns for the result of the cache's \<open>fetchAndMerge\<close>.\<close>

definition rebuilt :: "error + 's CacheValue \<Rightarrow> error + 's option \<times> string option" where
  "rebuilt result =
     (case result of
        Inl e \<Rightarrow> Inl e
      | Inr cacheValue \<Rightarrow> Inr (cv_instance cacheValue, cv_eventId cacheValue))"

section \<open>The event handling processor\<close>

text \<open>\<open>Progress\<close>, and the \<open>Map\<close> of \<open>InMemoryProgressTracker\<close>.\<close>

record Progress =
  progress_eventId :: "string option"

type_synonym InMemoryProgressTracker = "string \<rightharpoonup> Progress"

text \<open>An integer as a template literal prints it.\<close>

definition showInt :: "int \<Rightarrow> string" where
  "showInt i = (if i < 0 then ''-'' @ showNat (nat (- i)) else showNat (nat i))"

definition trackerKey :: "string \<Rightarrow> int \<Rightarrow> string" where
  "trackerKey groupName partitionNo = groupName @ '':'' @ showInt partitionNo"

text \<open>\<open>current\<close>: \<open>this.progress.get(key) || { eventId: null }\<close>\<close>

definition current :: "InMemoryProgressTracker \<Rightarrow> string \<Rightarrow> int \<Rightarrow> Progress" where
  "current tracker groupName partitionNo =
     (case tracker (trackerKey groupName partitionNo) of
        None \<Rightarrow> \<lparr>progress_eventId = None\<rparr>
      | Some progress \<Rightarrow> progress)"

text \<open>
  \<open>proceed\<close>, whose \<open>execution\<close> is always \<open>async () => ({ eventId: rawEvent.id })\<close>
  in the processor: its value is passed.
\<close>

definition proceed :: "InMemoryProgressTracker \<Rightarrow> string \<Rightarrow> int \<Rightarrow> Progress \<Rightarrow> InMemoryProgressTracker" where
  "proceed tracker groupName partitionNo newProgress =
     tracker(trackerKey groupName partitionNo \<mapsto> newProgress)"

text \<open>
  An event handler, by the arity that \<open>processEvent\<close> dispatches on: 1, 2, or anything
  else. A handler acts on a world \<open>'w\<close> of its own (a read model) and may throw after it
  has changed it.
\<close>

datatype ('w, 'v) EventHandler =
    ForObject "'w \<Rightarrow> 'v DomainObject \<Rightarrow> error option \<times> 'w"
  | ForObjectAndMetadata "'w \<Rightarrow> 'v DomainObject \<Rightarrow> 'v Record \<Rightarrow> error option \<times> 'w"
  | ForObjectAndMetadataAndRawEvent
      "'w \<Rightarrow> 'v DomainObject \<Rightarrow> 'v Record \<Rightarrow> 'v RawEvent \<Rightarrow> error option \<times> 'w"

record ('w, 'v) EventHandlerDefinition =
  eh_group :: string
  eh_eventClass :: string
  eh_handler :: "('w, 'v) EventHandler"

text \<open>
  A sequence resolver, by the arity that \<open>resolveSequenceId\<close> dispatches on: 1, or
  anything else. At the level of the raw event the second kind is called with \<open>null\<close>
  for the converted event; a resolver is code of the integrator and may throw.
\<close>

datatype 'v EventSequenceResolver =
    SequenceForRawEvent "'v RawEvent \<Rightarrow> error + string"
  | SequenceForObjectAndMetadataAndRawEvent
      "'v DomainObject option \<Rightarrow> 'v Record option \<Rightarrow> 'v RawEvent \<Rightarrow> error + string"

text \<open>
  \<open>EventHandlingProcessorConfig\<close>. The optional \<open>recursive\<close>, \<open>retryDelay\<close> and
  \<open>maxRetries\<close> get their defaults in the constructor.
\<close>

record ('w, 'v) EventHandlingProcessorConfig =
  p_group :: string
  p_getClass :: "string \<Rightarrow> error + string"
  p_deserialize :: "'v Record \<Rightarrow> string \<Rightarrow> error + 'v EventData"
  p_eventHandlers :: "('w, 'v) EventHandlerDefinition list"
  p_partitionKeyResolver :: "string \<Rightarrow> int"
  p_eventSequenceResolver :: "'v EventSequenceResolver"
  p_subject :: string
  p_recursive :: "bool option"
  p_partition :: int
  p_upcasters :: "'v EventUpcaster list option"
  p_retryDelay :: "nat option"
  p_maxRetries :: "nat option"

definition recursive :: "('w, 'v) EventHandlingProcessorConfig \<Rightarrow> bool" where
  "recursive cfg = (case p_recursive cfg of None \<Rightarrow> True | Some b \<Rightarrow> b)"

definition retryDelay :: "('w, 'v) EventHandlingProcessorConfig \<Rightarrow> nat" where
  "retryDelay cfg = (case p_retryDelay cfg of None \<Rightarrow> 1000 | Some d \<Rightarrow> d)"

definition maxRetries :: "('w, 'v) EventHandlingProcessorConfig \<Rightarrow> nat" where
  "maxRetries cfg = (case p_maxRetries cfg of None \<Rightarrow> 3 | Some n \<Rightarrow> n)"

text \<open>
  What the processor does that can be seen from outside, in order: the call of an event
  handler (with the name of its event class and the id of the event), a \<open>sleep\<close> (with
  its milliseconds), \<open>console.warn\<close> of \<open>processEvent\<close> (with the id of the event
  skipped), \<open>console.error\<close> of \<open>processEventWithRetry\<close> (with the id, the attempts and
  the last error), and \<open>console.error\<close> of \<open>run\<close>.
\<close>

datatype action =
    EventHandlerInvoked string string
  | Slept nat
  | Warned string error
  | FailedAfter string nat "error option"
  | RunError error

text \<open>
  The state of a processor and of what it works on: the tracker, the world of the
  handlers, the actions so far, and the flag \<open>stopRequested\<close>.
\<close>

record 'w ProcessorState =
  tracker :: InMemoryProgressTracker
  world :: 'w
  actions :: "action list"
  stopRequested :: bool

text \<open>
  \<open>this.handlers.get(eventClass.name) || []\<close>: the constructor indexes the definitions
  of the processor's group by the name of their event class, in order.
\<close>

definition handlersGet ::
  "('w, 'v) EventHandlingProcessorConfig \<Rightarrow> string \<Rightarrow> ('w, 'v) EventHandlerDefinition list" where
  "handlersGet cfg eventClass =
     filter (\<lambda>def. eh_group def = p_group cfg \<and> eh_eventClass def = eventClass)
       (p_eventHandlers cfg)"

definition resolveSequenceId ::
  "('w, 'v) EventHandlingProcessorConfig \<Rightarrow> 'v RawEvent \<Rightarrow> 'v DomainObject option \<Rightarrow> 'v RawEvent
   \<Rightarrow> error + string" where
  "resolveSequenceId cfg rawEvent convertedEvent metadata =
     (case p_eventSequenceResolver cfg of
        SequenceForRawEvent resolver \<Rightarrow> resolver rawEvent
      | SequenceForObjectAndMetadataAndRawEvent resolver \<Rightarrow>
          resolver convertedEvent (ev_metadata metadata) rawEvent)"

text \<open>The call of one event handler, by arity.\<close>

fun invokeEventHandler ::
  "('w, 'v) EventHandler \<Rightarrow> 'w \<Rightarrow> 'v EventData \<Rightarrow> 'v RawEvent \<Rightarrow> error option \<times> 'w" where
  "invokeEventHandler (ForObject h) w eventData upcastedEvent = h w (ed_payload eventData)"
| "invokeEventHandler (ForObjectAndMetadata h) w eventData upcastedEvent =
     h w (ed_payload eventData) (ed_metadata eventData)"
| "invokeEventHandler (ForObjectAndMetadataAndRawEvent h) w eventData upcastedEvent =
     h w (ed_payload eventData) (ed_metadata eventData) upcastedEvent"

text \<open>
  The loop over the matching handlers: a handler that throws ends the loop, and the
  handlers after it are not called for this event.
\<close>

fun invokeHandlers ::
  "('w, 'v) EventHandlerDefinition list \<Rightarrow> 'w ProcessorState \<Rightarrow> 'v EventData \<Rightarrow> 'v RawEvent
   \<Rightarrow> error option \<times> 'w ProcessorState" where
  "invokeHandlers [] st eventData upcastedEvent = (None, st)"
| "invokeHandlers (handlerDef # handlers) st eventData upcastedEvent =
     (case invokeEventHandler (eh_handler handlerDef) (world st) eventData upcastedEvent of
        (thrown, w1) \<Rightarrow>
          (let st1 = st\<lparr>world := w1,
                         actions := actions st
                           @ [EventHandlerInvoked (eh_eventClass handlerDef) (ev_id upcastedEvent)]\<rparr>
           in (case thrown of
                 Some e \<Rightarrow> (Some e, st1)
               | None \<Rightarrow> invokeHandlers handlers st1 eventData upcastedEvent)))"

text \<open>
  The \<open>try\<close> block of \<open>processEvent\<close> for one upcasted event: what it throws, if
  anything. An event whose converted form resolves to another partition is passed over.
\<close>

definition tryUpcasted ::
  "('w, 'v) EventHandlingProcessorConfig \<Rightarrow> 'w ProcessorState \<Rightarrow> 'v RawEvent
   \<Rightarrow> error option \<times> 'w ProcessorState" where
  "tryUpcasted cfg st upcastedEvent =
     (case p_getClass cfg (ev_type upcastedEvent) of
        Inl e \<Rightarrow> (Some e, st)
      | Inr eventClass \<Rightarrow>
          (case p_deserialize cfg (ev_data upcastedEvent) eventClass of
             Inl e \<Rightarrow> (Some e, st)
           | Inr eventData \<Rightarrow>
               (case resolveSequenceId cfg upcastedEvent (Some (ed_payload eventData))
                       upcastedEvent of
                  Inl e \<Rightarrow> (Some e, st)
                | Inr sequenceId \<Rightarrow>
                    if p_partitionKeyResolver cfg sequenceId \<noteq> p_partition cfg
                    then (None, st)
                    else invokeHandlers (handlersGet cfg eventClass) st eventData
                           upcastedEvent)))"

text \<open>The body of the loop of \<open>processEvent\<close>: the \<open>catch\<close> warns and goes on.\<close>

definition handleUpcasted ::
  "('w, 'v) EventHandlingProcessorConfig \<Rightarrow> 'w ProcessorState \<Rightarrow> 'v RawEvent \<Rightarrow> 'w ProcessorState" where
  "handleUpcasted cfg st upcastedEvent =
     (case tryUpcasted cfg st upcastedEvent of
        (None, st1) \<Rightarrow> st1
      | (Some e, st1) \<Rightarrow> st1\<lparr>actions := actions st1 @ [Warned (ev_id upcastedEvent) e]\<rparr>)"

text \<open>The progress update that the processor makes for a raw event.\<close>

definition advance ::
  "('w, 'v) EventHandlingProcessorConfig \<Rightarrow> 'w ProcessorState \<Rightarrow> 'v RawEvent \<Rightarrow> 'w ProcessorState" where
  "advance cfg st rawEvent =
     st\<lparr>tracker := proceed (tracker st) (p_group cfg) (p_partition cfg)
                       \<lparr>progress_eventId = Some (ev_id rawEvent)\<rparr>\<rparr>"

text \<open>
  \<open>processEvent\<close>: upcasting is outside the \<open>try\<close> block, so an upcaster that throws
  ends the attempt; otherwise every upcasted event is handled and progress is updated.
\<close>

definition processEvent ::
  "('w, 'v) EventHandlingProcessorConfig \<Rightarrow> 'w ProcessorState \<Rightarrow> 'v RawEvent
   \<Rightarrow> error option \<times> 'w ProcessorState" where
  "processEvent cfg st rawEvent =
     (case upcastedEvents (p_upcasters cfg) rawEvent of
        Inl e \<Rightarrow> (Some e, st)
      | Inr ues \<Rightarrow> (None, advance cfg (foldl (handleUpcasted cfg) st ues) rawEvent))"

text \<open>
  The loop of \<open>processEventWithRetry\<close> from a given number of \<open>attempts\<close>, with
  \<open>lastError\<close>; after the loop the failure is logged and progress is updated.
\<close>

function retryLoop ::
  "('w, 'v) EventHandlingProcessorConfig \<Rightarrow> 'w ProcessorState \<Rightarrow> 'v RawEvent \<Rightarrow> nat
   \<Rightarrow> error option \<Rightarrow> 'w ProcessorState" where
  "retryLoop cfg st rawEvent attempts lastError =
     (if attempts < maxRetries cfg
      then (case processEvent cfg st rawEvent of
              (None, st1) \<Rightarrow> st1
            | (Some e, st1) \<Rightarrow>
                retryLoop cfg
                  (if Suc attempts < maxRetries cfg
                   then st1\<lparr>actions := actions st1
                              @ [Slept (retryDelay cfg * 2 ^ (Suc attempts - 1))]\<rparr>
                   else st1)
                  rawEvent (Suc attempts) (Some e))
      else advance cfg
             (st\<lparr>actions := actions st @ [FailedAfter (ev_id rawEvent) attempts lastError]\<rparr>)
             rawEvent)"
  by pat_completeness auto
termination
  by (relation "measure (\<lambda>(cfg, st, rawEvent, attempts, lastError). maxRetries cfg - attempts)")
    auto

declare retryLoop.simps [simp del]

definition processEventWithRetry ::
  "('w, 'v) EventHandlingProcessorConfig \<Rightarrow> 'w ProcessorState \<Rightarrow> 'v RawEvent \<Rightarrow> 'w ProcessorState" where
  "processEventWithRetry cfg st rawEvent = retryLoop cfg st rawEvent 0 None"


text \<open>
  The body of the loop of \<open>run\<close> over the observed events, after the check of
  \<open>stopRequested\<close>: what it throws, if anything.
\<close>

definition handleObserved ::
  "('w, 'v) EventHandlingProcessorConfig \<Rightarrow> 'w ProcessorState \<Rightarrow> 'v RawEvent
   \<Rightarrow> error option \<times> 'w ProcessorState" where
  "handleObserved cfg st rawEvent =
     (case resolveSequenceId cfg rawEvent None rawEvent of
        Inl e \<Rightarrow> (Some e, st)
      | Inr sequenceId \<Rightarrow>
          if p_partitionKeyResolver cfg sequenceId \<noteq> p_partition cfg
          then (None, advance cfg st rawEvent)
          else (None, processEventWithRetry cfg st rawEvent))"

text \<open>
  The loop of \<open>run\<close> over the observed events: it breaks when \<open>stopRequested\<close> is set
  and ends with the exception of its body, if there is one.
\<close>

fun observeLoop ::
  "('w, 'v) EventHandlingProcessorConfig \<Rightarrow> 'w ProcessorState \<Rightarrow> 'v RawEvent list
   \<Rightarrow> error option \<times> 'w ProcessorState" where
  "observeLoop cfg st [] = (None, st)"
| "observeLoop cfg st (rawEvent # rest) =
     (if stopRequested st then (None, st)
      else (case handleObserved cfg st rawEvent of
              (Some e, st1) \<Rightarrow> (Some e, st1)
            | (None, st1) \<Rightarrow> observeLoop cfg st1 rest))"

text \<open>
  One iteration of the \<open>while\<close> loop of \<open>run\<close>: progress is read, the stream is
  observed from there, and an exception is logged and followed by a sleep.
\<close>

definition runOnce ::
  "('w, 'v) EventHandlingProcessorConfig \<Rightarrow> 'v InMemoryAdapter \<Rightarrow> 'w ProcessorState
   \<Rightarrow> 'w ProcessorState" where
  "runOnce cfg store st =
     (let progress = current (tracker st) (p_group cfg) (p_partition cfg);
          options = (if truthy (progress_eventId progress)
                     then Some \<lparr>lowerBound = progress_eventId progress,
                                includeLowerBound = Some False, upperBound = None,
                                includeUpperBound = None, latestByEventType = None\<rparr>
                     else None)
      in (case observeLoop cfg st (observeEvents store (p_subject cfg) options (recursive cfg)) of
            (None, st1) \<Rightarrow> st1
          | (Some e, st1) \<Rightarrow> st1\<lparr>actions := actions st1 @ [RunError e, Slept (retryDelay cfg)]\<rparr>))"

text \<open>
  \<open>run\<close>: the \<open>while (!this.stopRequested)\<close> loop does not end by itself, so it is given
  a number of iterations, and \<open>None\<close> says that they did not suffice.
\<close>

fun run ::
  "nat \<Rightarrow> ('w, 'v) EventHandlingProcessorConfig \<Rightarrow> 'v InMemoryAdapter \<Rightarrow> 'w ProcessorState
   \<Rightarrow> 'w ProcessorState option" where
  "run 0 cfg store st = (if stopRequested st then Some st else None)"
| "run (Suc fuel) cfg store st =
     (if stopRequested st then Some st else run fuel cfg store (runOnce cfg store st))"

section \<open>A sample configuration\<close>

text \<open>
  A small configuration on which the definitions are run: an aggregate \<open>Item\<close> with
  a name, created by \<open>Created\<close> and renamed by \<open>Renamed\<close> (which throws when there is
  no item yet, or no name in the event); a command that publishes both events in one
  call, and one that publishes them in the other order; a marshaller that keeps the
  payload's properties as the data; and two upcasters that form a chain \<open>v1\<close> to \<open>v2\<close>
  to \<open>v3\<close>, each adding a property to the data.
\<close>

definition sampleEvent :: "string \<Rightarrow> string \<Rightarrow> string \<Rightarrow> unit RawEvent" where
  "sampleEvent eid etype name =
     \<lparr>ev_id = eid, ev_type = etype, ev_source = ''test'', ev_subject = ''/item/1'',
      ev_time = ''2024-01-01T00:00:00Z'', ev_data = [''name'' \<mapsto> AString name],
      ev_metadata = None\<rparr>"

definition upcasterV1 :: "unit EventUpcaster" where
  "upcasterV1 =
     \<lparr>canUpcast = (\<lambda>event. ev_type event = ''v1.Event''),
      upcast = (\<lambda>event. Inr [\<lparr>res_type = ''v2.Event'',
                                res_data = (ev_data event)(''second'' \<mapsto> AString ''2'')\<rparr>])\<rparr>"

definition upcasterV2 :: "unit EventUpcaster" where
  "upcasterV2 =
     \<lparr>canUpcast = (\<lambda>event. ev_type event = ''v2.Event''),
      upcast = (\<lambda>event. Inr [\<lparr>res_type = ''v3.Event'',
                                res_data = (ev_data event)(''third'' \<mapsto> AString ''3'')\<rparr>])\<rparr>"

text \<open>An upcaster that splits a \<open>v3.Event\<close> in two, the second without data.\<close>

definition splitResults :: "unit RawEvent \<Rightarrow> unit UpcasterResult list" where
  "splitResults event =
     [\<lparr>res_type = ''v3.Head'', res_data = ev_data event\<rparr>,
      \<lparr>res_type = ''v3.Tail'', res_data = Map.empty\<rparr>]"

definition splitter :: "unit EventUpcaster" where
  "splitter =
     \<lparr>canUpcast = (\<lambda>event. ev_type event = ''v3.Event''),
      upcast = (\<lambda>event. Inr (splitResults event))\<rparr>"

text \<open>The sample event of type \<open>v1.Event\<close> after both stages, with both edits of its data.\<close>

definition staged :: "unit RawEvent" where
  "staged =
     (sampleEvent ''event-0'' ''v1.Event'' ''a'')
     \<lparr>ev_type := ''v3.Event'',
      ev_data := [''name'' \<mapsto> AString ''a'', ''second'' \<mapsto> AString ''2'',
                  ''third'' \<mapsto> AString ''3'']\<rparr>"

definition sampleGetClass :: "string \<Rightarrow> error + string" where
  "sampleGetClass eventType =
     (if eventType = ''Created'' \<or> eventType = ''Renamed'' then Inr eventType
      else Inl (Error (''No class registered for event type '' @ quoted eventType)))"

definition sampleDeserialize :: "unit Record \<Rightarrow> string \<Rightarrow> error + unit EventData" where
  "sampleDeserialize json clazz =
     Inr \<lparr>ed_metadata = Map.empty, ed_payload = \<lparr>constructorName = clazz, props = json\<rparr>\<rparr>"

datatype Item = Item string

definition itemOf :: "unit DomainObject \<Rightarrow> error + Item" where
  "itemOf event =
     (case props event ''name'' of
        Some (AString name) \<Rightarrow> Inr (Item name)
      | _ \<Rightarrow> Inl (Error ''name is not a string''))"

definition onCreated :: "(Item, unit) StateRebuildingHandler" where
  "onCreated = FromObject (\<lambda>item event. itemOf event)"

definition onRenamed :: "(Item, unit) StateRebuildingHandler" where
  "onRenamed =
     FromObject (\<lambda>item event.
       case item of
         None \<Rightarrow> Inl (Error ''Cannot read properties of null'')
       | Some _ \<Rightarrow> itemOf event)"

definition published :: "string \<Rightarrow> string \<Rightarrow> unit Captured" where
  "published clazz name =
     \<lparr>cap_event = \<lparr>constructorName = clazz, props = [''name'' \<mapsto> AString name]\<rparr>,
      cap_metadata = Map.empty, cap_preconditions = []\<rparr>"

definition handleCreateAndRename :: "(Item, string, unit) CommandHandler" where
  "handleCreateAndRename =
     ForCommand (\<lambda>command. Inr (''done'', [published ''Created'' ''a'', published ''Renamed'' ''b'']))"

definition handleRenameAndCreate :: "(Item, string, unit) CommandHandler" where
  "handleRenameAndCreate =
     ForCommand (\<lambda>command. Inr (''done'', [published ''Renamed'' ''b'', published ''Created'' ''a'']))"

definition handleRename :: "(Item, string, unit) CommandHandler" where
  "handleRename =
     ForInstanceAndCommand (\<lambda>item command. Inr (''done'', [published ''Renamed'' ''c'']))"

definition sampleConfig :: "(Item, string, unit) CommandRouterConfig" where
  "sampleConfig =
     \<lparr>getEventType = Inr,
      getClass = sampleGetClass,
      serialize = (\<lambda>eventData. Inr (props (ed_payload eventData))),
      deserialize = sampleDeserialize,
      commandHandlers =
        [\<lparr>ch_instanceClass = ''Item'', ch_commandClass = ''CreateAndRename'',
          ch_handler = handleCreateAndRename, ch_sourcingMode = SM_LOCAL\<rparr>,
         \<lparr>ch_instanceClass = ''Item'', ch_commandClass = ''Rename'',
          ch_handler = handleRename, ch_sourcingMode = SM_LOCAL\<rparr>,
         \<lparr>ch_instanceClass = ''Item'', ch_commandClass = ''Touch'',
          ch_handler = handleRename, ch_sourcingMode = SM_NONE\<rparr>,
         \<lparr>ch_instanceClass = ''Item'', ch_commandClass = ''RenameAndCreate'',
          ch_handler = handleRenameAndCreate, ch_sourcingMode = SM_LOCAL\<rparr>],
      stateRebuildingHandlers =
        [\<lparr>srh_instanceClass = ''Item'', srh_eventClass = ''Created'', srh_handler = onCreated\<rparr>,
         \<lparr>srh_instanceClass = ''Item'', srh_eventClass = ''Renamed'', srh_handler = onRenamed\<rparr>],
      eventSource = ''test'',
      cfg_upcasters = None,
      metadataPropagation = \<lparr>mp_mode = MP_NONE, mp_keys = None\<rparr>\<rparr>"

definition sampleCommand :: "string \<Rightarrow> SubjectCondition option \<Rightarrow> unit Command" where
  "sampleCommand clazz condition =
     \<lparr>cmd_object = \<lparr>constructorName = clazz, props = Map.empty\<rparr>,
      getSubject = ''/item/1'', getSubjectCondition = condition\<rparr>"

definition sampleState :: "unit RawEvent list \<Rightarrow> (Item, unit) RouterState" where
  "sampleState stored =
     \<lparr>eventStore = \<lparr>adapter_events = stored, adapter_idCounter = length stored,
                    adapter_clock = ''2024-01-01T00:00:00Z''\<rparr>,
      stateCache = InMemoryStateCache \<lparr>cache_entries = [], cache_capacity = 1000\<rparr>,
      effects = []\<rparr>"

text \<open>
  The handler definitions of the sample by the name of their command class, the state
  that a rebuild of the subject \<open>/item/1\<close> leaves from a cold cache, an event on which
  the \<open>Renamed\<close> handler throws, the cache key of the subject, and a history of three
  events.
\<close>

definition sampleDefinition :: "string \<Rightarrow> SourcingMode \<Rightarrow> (Item, string, unit) CommandHandlerDefinition" where
  "sampleDefinition clazz mode =
     \<lparr>ch_instanceClass = ''Item'', ch_commandClass = clazz,
      ch_handler = (if clazz = ''CreateAndRename'' then handleCreateAndRename
                    else if clazz = ''RenameAndCreate'' then handleRenameAndCreate
                    else handleRename),
      ch_sourcingMode = mode\<rparr>"

definition sampleCached :: "Item option \<Rightarrow> string option \<Rightarrow> (Item, unit) RouterState \<Rightarrow> (Item, unit) RouterState" where
  "sampleCached item eid st =
     st\<lparr>stateCache := InMemoryStateCache
           \<lparr>cache_entries =
              [(''/item/1:Item:LOCAL'',
                \<lparr>cv_eventId = eid, cv_instance = item,
                 cv_sourcedSubjectIds = (case eid of None \<Rightarrow> [] | Some i \<Rightarrow> [(''/item/1'', i)])\<rparr>)],
            cache_capacity = 1000\<rparr>,
        effects := effects st @ [StreamEventsCalled ''/item/1'' None]\<rparr>"

definition malformed :: "unit RawEvent" where
  "malformed = (sampleEvent ''event-1'' ''Renamed'' ''b'')\<lparr>ev_data := Map.empty\<rparr>"

definition sampleKey :: CacheKey where
  "sampleKey = \<lparr>key_subject = ''/item/1'', key_instanceClass = ''Item'', key_sourcingMode = SM_LOCAL\<rparr>"

definition sampleHistory :: "unit RawEvent list" where
  "sampleHistory =
     [sampleEvent ''event-0'' ''Created'' ''a'', sampleEvent ''event-1'' ''Renamed'' ''b'',
      sampleEvent ''event-2'' ''Renamed'' ''c'']"

text \<open>
  A sample processor for partition 0 of the group \<open>items\<close>, with the default retry
  settings: its only handler counts its calls in the world and throws on every call;
  the subject \<open>/item/1\<close> maps to partition 0 and every other one to partition 1. A
  variant has an upcaster that throws.
\<close>

definition alwaysThrows :: "(nat, unit) EventHandler" where
  "alwaysThrows = ForObject (\<lambda>calls event. (Some (Error ''boom''), Suc calls))"

definition perSubject :: "unit EventSequenceResolver" where
  "perSubject = SequenceForRawEvent (\<lambda>event. Inr (ev_subject event))"

definition sampleProcessor :: "(nat, unit) EventHandlingProcessorConfig" where
  "sampleProcessor =
     \<lparr>p_group = ''items'',
      p_getClass = sampleGetClass,
      p_deserialize = sampleDeserialize,
      p_eventHandlers =
        [\<lparr>eh_group = ''items'', eh_eventClass = ''Created'', eh_handler = alwaysThrows\<rparr>],
      p_partitionKeyResolver = (\<lambda>sequenceId. if sequenceId = ''/item/1'' then 0 else 1),
      p_eventSequenceResolver = perSubject,
      p_subject = ''/item'',
      p_recursive = None,
      p_partition = 0,
      p_upcasters = None,
      p_retryDelay = None,
      p_maxRetries = None\<rparr>"

definition failingUpcaster :: "unit EventUpcaster" where
  "failingUpcaster =
     \<lparr>canUpcast = (\<lambda>event. True), upcast = (\<lambda>event. Inl (Error ''cannot upcast''))\<rparr>"

definition idle :: "nat ProcessorState" where
  "idle = \<lparr>tracker = Map.empty, world = 0, actions = [], stopRequested = False\<rparr>"


definition elsewhere :: "unit RawEvent" where
  "elsewhere = (sampleEvent ''event-1'' ''Created'' ''z'')\<lparr>ev_subject := ''/item/2''\<rparr>"




section \<open>Running the sample\<close>

text \<open>The definitions that the simplifier unfolds to run the sample.\<close>

lemmas sample_defs =
  sampleConfig_def sampleCommand_def sampleState_def sampleEvent_def sampleGetClass_def
  sampleDeserialize_def itemOf_def onCreated_def onRenamed_def published_def
  handleCreateAndRename_def handleRenameAndCreate_def handleRename_def

lemmas router_defs =
  send_def commandHandlersGet_def rebuildState_def fetchAndMerge_def fetchCached_def
  storeMerged_def buildKey_def merger_def mergeStart_def mergeFinish_def streamOptions_def
  streamEvents_def filterEventsBySubject_def applyLowerBound_def applyUpperBound_def
  applyLatestByEventType_def applyRawEvent_def upcastedEvents_def applyUpcasted_def
  applyStateRebuilding_def stateRebuildingHandlersGet_def validateSubjectCondition_def
  executeCommand_def publishCaptured_def toPublish_def propagateMetadata_def publishEvents_def
  storeEvent_def truthy_def orNull_def quoted_def Let_def


lemmas sample_processor_defs =
  sampleProcessor_def alwaysThrows_def perSubject_def failingUpcaster_def idle_def
  sampleEvent_def sampleGetClass_def sampleDeserialize_def quoted_def

section \<open>Properties of the partition resolver\<close>

lemma jsRemainder_range:
  "0 \<le> a \<Longrightarrow> 0 < n \<Longrightarrow> \<exists>p. jsRemainder a n = Some p \<and> 0 \<le> p \<and> p < n"
  by (cases "a = 0") (simp_all add: jsRemainder_def)

lemma resolve_task_1: "resolve 10 ''/task/task-1'' = Some 4"
  by (simp add: resolve_def resolveUnits_def charCodes_def hashChar_def andSelf_def
      shiftLeft5_def ToInt32_def jsRemainder_def)

text \<open>
  C8. \<open>resolve\<close> is a function of the partition count and of the code units of the
  string alone: it takes no state. For every sequence of code units and every partition
  count \<open>n > 0\<close> the result is an integer \<open>p\<close> with \<open>0 \<le> p < n\<close>, and
  \<open>DefaultPartitionKeyResolver(10).resolve("/task/task-1")\<close> is \<open>4\<close>.
\<close>

theorem C8_resolve_range:
  "(0 < n \<longrightarrow> (\<exists>p. resolveUnits n units = Some p \<and> 0 \<le> p \<and> p < n))
   \<and> resolve 10 ''/task/task-1'' = Some 4
   \<and> (\<exists>p. resolve 10 ''/task/task-1'' = Some p \<and> 0 \<le> p \<and> p < 10)"
proof (intro conjI impI)
  assume "0 < n"
  then show "\<exists>p. resolveUnits n units = Some p \<and> 0 \<le> p \<and> p < n"
    unfolding resolveUnits_def by (intro jsRemainder_range) simp_all
next
  show "resolve 10 ''/task/task-1'' = Some 4" by (rule resolve_task_1)
next
  show "\<exists>p. resolve 10 ''/task/task-1'' = Some p \<and> 0 \<le> p \<and> p < 10"
    by (simp add: resolve_task_1)
qed

theorem C8_resolve_range_witness:
  "(0::int) < 3 \<and> (\<exists>p. resolveUnits 3 [97, 98] = Some p \<and> 0 \<le> p \<and> p < 3)"
  using C8_resolve_range [of 3 "[97, 98]"] by simp

section \<open>Properties of the upcaster chain\<close>

lemma inherits_refl: "inherits event event"
  by (simp add: inherits_def)

lemma inherits_trans: "inherits a b \<Longrightarrow> inherits b c \<Longrightarrow> inherits a c"
  by (simp add: inherits_def)

lemma upcastEvent_inherits:
  "upcastEvent upcaster evt = Inr outs \<Longrightarrow> out \<in> set outs \<Longrightarrow> inherits out evt"
  by (auto simp: upcastEvent_def inherits_def split: if_splits sum.splits)

lemma upcastPass_inherits:
  "upcastPass upcaster events = Inr outs \<Longrightarrow> out \<in> set outs
   \<Longrightarrow> \<exists>evt \<in> set events. inherits out evt"
proof (induction events arbitrary: outs)
  case Nil
  then show ?case by simp
next
  case (Cons evt events)
  from Cons.prems(1) obtain pushed newEvents where
    p: "upcastEvent upcaster evt = Inr pushed" and
    n: "upcastPass upcaster events = Inr newEvents" and
    o: "outs = pushed @ newEvents"
    by (auto split: sum.splits)
  from Cons.prems(2) o consider "out \<in> set pushed" | "out \<in> set newEvents" by auto
  then show ?case
  proof cases
    case 1
    with p show ?thesis by (auto dest: upcastEvent_inherits)
  next
    case 2
    with n Cons.IH show ?thesis by auto
  qed
qed

lemma upcastPasses_inherits:
  "upcastPasses upcasters events = Inr outs \<Longrightarrow> out \<in> set outs
   \<Longrightarrow> \<exists>evt \<in> set events. inherits out evt"
proof (induction upcasters arbitrary: events)
  case Nil
  then show ?case by (auto intro: inherits_refl)
next
  case (Cons upcaster upcasters)
  from Cons.prems(1) obtain newEvents where
    n: "upcastPass upcaster events = Inr newEvents" and
    r: "upcastPasses upcasters newEvents = Inr outs"
    by (auto split: sum.splits)
  from Cons.IH [OF r Cons.prems(2)] obtain mid where
    m: "mid \<in> set newEvents" and i: "inherits out mid" by auto
  from upcastPass_inherits [OF n m] obtain evt where
    "evt \<in> set events" and "inherits mid evt" by auto
  with i show ?case by (auto intro: inherits_trans)
qed

lemma upcastPasses_append:
  "upcastPasses (upcasters @ [upcaster]) events =
     (case upcastPasses upcasters events of
        Inl e \<Rightarrow> Inl e
      | Inr outs \<Rightarrow> upcastPass upcaster outs)"
  by (induction upcasters arbitrary: events) (auto split: sum.splits)

lemma upcastPass_unclaimed:
  "\<forall>evt \<in> set events. \<not> canUpcast upcaster evt \<Longrightarrow> upcastPass upcaster events = Inr events"
  by (induction events) (auto simp: upcastEvent_def)

lemma upcastPasses_unclaimed:
  "\<forall>upcaster \<in> set upcasters. \<forall>evt \<in> set events. \<not> canUpcast upcaster evt
   \<Longrightarrow> upcastPasses upcasters events = Inr events"
  by (induction upcasters) (auto simp: upcastPass_unclaimed)

lemma upcastPass_results:
  "\<forall>evt \<in> set events. canUpcast upcaster evt \<longrightarrow> upcast upcaster evt = Inr (results evt)
   \<Longrightarrow> upcastPass upcaster events =
       Inr (concat (map (\<lambda>evt. if canUpcast upcaster evt
                               then map (\<lambda>result. evt\<lparr>ev_type := res_type result,
                                                         ev_data := res_data result\<rparr>)
                                      (results evt)
                               else [evt])
                      events))"
  by (induction events) (simp_all add: upcastEvent_def)

lemma upcastPass_thrown:
  "canUpcast upcaster evt \<Longrightarrow> upcast upcaster evt = Inl e
   \<Longrightarrow> \<forall>x \<in> set before. canUpcast upcaster x \<longrightarrow> (\<exists>results. upcast upcaster x = Inr results)
   \<Longrightarrow> upcastPass upcaster (before @ evt # after) = Inl e"
proof (induction before)
  case Nil
  then show ?case by (simp add: upcastEvent_def)
next
  case (Cons x before)
  then have rest: "upcastPass upcaster (before @ evt # after) = Inl e" by simp
  from Cons.prems(3) have "\<exists>pushed. upcastEvent upcaster x = Inr pushed"
    by (auto simp: upcastEvent_def)
  with rest show ?case by auto
qed

text \<open>
  C6. The chain is a sequence of full passes in registration order, starting from the
  event alone: the upcaster registered last runs one pass over the result set of the
  passes before it. A pass replaces each event that its upcaster claims by one event
  for every result that \<open>upcast\<close> returns for it, in order (none, one or many), each
  being that event with the result's \<open>type\<close> and \<open>data\<close>, and keeps the other events;
  the first exception of \<open>upcast\<close> ends the chain. An event that no upcaster claims
  comes out alone and unchanged. Every output has the input's \<open>id\<close>, \<open>subject\<close>,
  \<open>source\<close>, \<open>time\<close> (and \<open>metadata\<close>): it is the input with \<open>type\<close> and \<open>data\<close>
  replaced.
\<close>

theorem C6_upcast_chain:
  "EventUpcasters_upcast [] event = Inr [event]
   \<and> EventUpcasters_upcast (upcasters @ [upcaster]) event =
     (case EventUpcasters_upcast upcasters event of
        Inl e \<Rightarrow> Inl e
      | Inr outs \<Rightarrow> upcastPass upcaster outs)
   \<and> (EventUpcasters_upcast upcasters event = Inr outs
       \<and> (\<forall>evt \<in> set outs. canUpcast upcaster evt \<longrightarrow> upcast upcaster evt = Inr (results evt))
       \<longrightarrow> EventUpcasters_upcast (upcasters @ [upcaster]) event =
             Inr (concat (map (\<lambda>evt. if canUpcast upcaster evt
                                     then map (\<lambda>result. evt\<lparr>ev_type := res_type result,
                                                               ev_data := res_data result\<rparr>)
                                            (results evt)
                                     else [evt])
                            outs)))
   \<and> (EventUpcasters_upcast upcasters event = Inr (before @ evt # after)
       \<and> canUpcast upcaster evt \<and> upcast upcaster evt = Inl thrown
       \<and> (\<forall>x \<in> set before. canUpcast upcaster x \<longrightarrow> (\<exists>rs. upcast upcaster x = Inr rs))
       \<longrightarrow> EventUpcasters_upcast (upcasters @ [upcaster]) event = Inl thrown)
   \<and> upcastPass upcaster (evt # events) =
     (case upcastEvent upcaster evt of
        Inl e \<Rightarrow> Inl e
      | Inr pushed \<Rightarrow> (case upcastPass upcaster events of
                         Inl e \<Rightarrow> Inl e
                       | Inr newEvents \<Rightarrow> Inr (pushed @ newEvents)))
   \<and> ((\<forall>u \<in> set upcasters. \<not> canUpcast u event)
        \<longrightarrow> EventUpcasters_upcast upcasters event = Inr [event])
   \<and> (\<forall>outs. EventUpcasters_upcast upcasters event = Inr outs \<longrightarrow>
        (\<forall>out \<in> set outs.
           out = event\<lparr>ev_type := ev_type out, ev_data := ev_data out\<rparr>))"
proof (intro conjI allI impI ballI)
  show "EventUpcasters_upcast [] event = Inr [event]"
    by (simp add: EventUpcasters_upcast_def)
next
  show "EventUpcasters_upcast (upcasters @ [upcaster]) event =
     (case EventUpcasters_upcast upcasters event of
        Inl e \<Rightarrow> Inl e
      | Inr outs \<Rightarrow> upcastPass upcaster outs)"
    by (simp add: EventUpcasters_upcast_def upcastPasses_append)
next
  assume "EventUpcasters_upcast upcasters event = Inr outs
       \<and> (\<forall>evt \<in> set outs. canUpcast upcaster evt \<longrightarrow> upcast upcaster evt = Inr (results evt))"
  then show "EventUpcasters_upcast (upcasters @ [upcaster]) event =
             Inr (concat (map (\<lambda>evt. if canUpcast upcaster evt
                                     then map (\<lambda>result. evt\<lparr>ev_type := res_type result,
                                                               ev_data := res_data result\<rparr>)
                                            (results evt)
                                     else [evt])
                            outs))"
    using upcastPass_results [of outs upcaster results]
    by (simp add: EventUpcasters_upcast_def upcastPasses_append)
next
  assume "EventUpcasters_upcast upcasters event = Inr (before @ evt # after)
       \<and> canUpcast upcaster evt \<and> upcast upcaster evt = Inl thrown
       \<and> (\<forall>x \<in> set before. canUpcast upcaster x \<longrightarrow> (\<exists>rs. upcast upcaster x = Inr rs))"
  then show "EventUpcasters_upcast (upcasters @ [upcaster]) event = Inl thrown"
    using upcastPass_thrown [of upcaster evt thrown before after]
    by (simp add: EventUpcasters_upcast_def upcastPasses_append)
next
  show "upcastPass upcaster (evt # events) =
     (case upcastEvent upcaster evt of
        Inl e \<Rightarrow> Inl e
      | Inr pushed \<Rightarrow> (case upcastPass upcaster events of
                         Inl e \<Rightarrow> Inl e
                       | Inr newEvents \<Rightarrow> Inr (pushed @ newEvents)))"
    by simp
next
  assume "\<forall>u \<in> set upcasters. \<not> canUpcast u event"
  then show "EventUpcasters_upcast upcasters event = Inr [event]"
    by (simp add: EventUpcasters_upcast_def upcastPasses_unclaimed)
next
  fix outs out
  assume "EventUpcasters_upcast upcasters event = Inr outs" and "out \<in> set outs"
  then have "inherits out event"
    using upcastPasses_inherits [of upcasters "[event]" outs out]
    by (simp add: EventUpcasters_upcast_def)
  then show "out = event\<lparr>ev_type := ev_type out, ev_data := ev_data out\<rparr>"
    by (simp add: inherits_def)
qed

text \<open>
  On the sample: an event of another type passes the chain \<open>v1\<close> to \<open>v2\<close> to \<open>v3\<close>
  unchanged; a \<open>v1.Event\<close> comes out of it as a \<open>v3.Event\<close> with the properties that
  both stages add; the splitter, registered after them, turns that event into two; and an
  upcaster that throws, registered after them, ends the chain with its exception.
\<close>

theorem C6_upcast_chain_witness:
  "\<not> canUpcast upcasterV1 (sampleEvent ''event-0'' ''Other'' ''a'')
   \<and> \<not> canUpcast upcasterV2 (sampleEvent ''event-0'' ''Other'' ''a'')
   \<and> EventUpcasters_upcast [upcasterV1, upcasterV2] (sampleEvent ''event-0'' ''Other'' ''a'')
       = Inr [sampleEvent ''event-0'' ''Other'' ''a'']
   \<and> EventUpcasters_upcast [upcasterV1, upcasterV2] (sampleEvent ''event-0'' ''v1.Event'' ''a'')
       = Inr [staged]
   \<and> canUpcast splitter staged
   \<and> upcast splitter staged = Inr (splitResults staged)
   \<and> EventUpcasters_upcast ([upcasterV1, upcasterV2] @ [splitter])
        (sampleEvent ''event-0'' ''v1.Event'' ''a'')
       = Inr [staged\<lparr>ev_type := ''v3.Head''\<rparr>,
              staged\<lparr>ev_type := ''v3.Tail'', ev_data := Map.empty\<rparr>]
   \<and> canUpcast failingUpcaster staged
   \<and> upcast failingUpcaster staged = Inl (Error ''cannot upcast'')
   \<and> EventUpcasters_upcast ([upcasterV1, upcasterV2] @ [failingUpcaster])
        (sampleEvent ''event-0'' ''v1.Event'' ''a'')
       = Inl (Error ''cannot upcast'')
   \<and> ev_id staged = ''event-0'' \<and> ev_subject staged = ''/item/1''"
proof -
  let ?v1 = "sampleEvent ''event-0'' ''v1.Event'' ''a''"
  let ?other = "sampleEvent ''event-0'' ''Other'' ''a''"
  have unclaimed: "\<forall>u \<in> set [upcasterV1, upcasterV2]. \<not> canUpcast u ?other"
    by (simp add: upcasterV1_def upcasterV2_def sampleEvent_def)
  have two: "EventUpcasters_upcast [upcasterV1, upcasterV2] ?v1 = Inr ([] @ staged # [])"
    by (simp add: EventUpcasters_upcast_def upcastEvent_def upcasterV1_def upcasterV2_def
        sampleEvent_def staged_def)
  have claimed: "\<forall>evt \<in> set ([] @ staged # []).
      canUpcast splitter evt \<longrightarrow> upcast splitter evt = Inr (splitResults evt)"
    by (simp add: splitter_def)
  have c: "canUpcast splitter staged" "upcast splitter staged = Inr (splitResults staged)"
    by (simp_all add: splitter_def staged_def)
  have f: "canUpcast failingUpcaster staged"
    "upcast failingUpcaster staged = Inl (Error ''cannot upcast'')"
    by (simp_all add: failingUpcaster_def)
  have before: "\<forall>x \<in> set []. canUpcast failingUpcaster x
                  \<longrightarrow> (\<exists>rs. upcast failingUpcaster x = Inr rs)"
    by simp
  note split = C6_upcast_chain [where upcasters = "[upcasterV1, upcasterV2]"
      and upcaster = splitter and event = ?v1 and outs = "[] @ staged # []"
      and results = splitResults and before = "[]" and evt = staged and after = "[]"
      and thrown = "Error ''cannot upcast''" and events = "[]"]
  note fail = C6_upcast_chain [where upcasters = "[upcasterV1, upcasterV2]"
      and upcaster = failingUpcaster and event = ?v1 and outs = "[] @ staged # []"
      and results = splitResults and before = "[]" and evt = staged and after = "[]"
      and thrown = "Error ''cannot upcast''" and events = "[]"]
  note pass = C6_upcast_chain [where upcasters = "[upcasterV1, upcasterV2]"
      and upcaster = splitter and event = ?other and outs = "[]"
      and results = splitResults and before = "[]" and evt = staged and after = "[]"
      and thrown = "Error ''cannot upcast''" and events = "[]"]
  from pass unclaimed have p: "EventUpcasters_upcast [upcasterV1, upcasterV2] ?other = Inr [?other]"
    by blast
  from split two claimed have s:
    "EventUpcasters_upcast ([upcasterV1, upcasterV2] @ [splitter]) ?v1 =
       Inr (concat (map (\<lambda>evt. if canUpcast splitter evt
                               then map (\<lambda>result. evt\<lparr>ev_type := res_type result,
                                                         ev_data := res_data result\<rparr>)
                                      (splitResults evt)
                               else [evt])
                      ([] @ staged # [])))"
    by blast
  from fail two f before have t:
    "EventUpcasters_upcast ([upcasterV1, upcasterV2] @ [failingUpcaster]) ?v1
     = Inl (Error ''cannot upcast'')"
    by blast
  have i: "ev_id staged = ''event-0''" "ev_subject staged = ''/item/1''"
    by (simp_all add: staged_def sampleEvent_def)
  show ?thesis
    using unclaimed p two s t c f i by (simp add: splitResults_def)
qed

section \<open>Properties of the rebuild\<close>

lemma applyUpcasted_cases:
  "applyUpcasted cfg cls m ue = m \<or> currentEventId (applyUpcasted cfg cls m ue) = Some (ev_id ue)"
  by (simp add: applyUpcasted_def split: sum.splits)

lemma foldl_applyUpcasted_cases:
  "\<forall>ue \<in> set ues. ev_id ue = i \<Longrightarrow>
   foldl (applyUpcasted cfg cls) m ues = m
   \<or> currentEventId (foldl (applyUpcasted cfg cls) m ues) = Some i"
proof (induction ues arbitrary: m)
  case Nil
  then show ?case by simp
next
  case (Cons ue ues)
  let ?m1 = "applyUpcasted cfg cls m ue"
  from Cons.prems have i: "ev_id ue = i" and rest: "\<forall>ue \<in> set ues. ev_id ue = i" by simp_all
  from Cons.IH [OF rest, of ?m1] applyUpcasted_cases [of cfg cls m ue] i
  show ?case by auto
qed

lemma upcastedEvents_ids:
  "upcastedEvents ups raw = Inr ues \<Longrightarrow> ue \<in> set ues \<Longrightarrow> ev_id ue = ev_id raw"
  using upcastPasses_inherits [of _ "[raw]" ues ue]
  by (auto simp: upcastedEvents_def EventUpcasters_upcast_def inherits_def split: option.splits)

lemma applyRawEvent_cases:
  "applyRawEvent cfg cls m raw = Inr m1 \<Longrightarrow> m1 = m \<or> currentEventId m1 = Some (ev_id raw)"
  using foldl_applyUpcasted_cases [of _ "ev_id raw" cfg cls m]
  by (auto simp: applyRawEvent_def split: sum.splits dest: upcastedEvents_ids)

lemma applyRawEvents_append:
  "applyRawEvents cfg cls m (xs @ ys) =
     (case applyRawEvents cfg cls m xs of
        Inl e \<Rightarrow> Inl e
      | Inr m1 \<Rightarrow> applyRawEvents cfg cls m1 ys)"
  by (induction xs arbitrary: m) (auto split: sum.splits)

lemma applyRawEvents_position:
  "applyRawEvents cfg cls m0 xs = Inr m \<Longrightarrow> currentEventId m0 = None \<Longrightarrow>
   m = m0 \<or> (\<exists>pre e post. xs = pre @ e # post \<and> currentEventId m = Some (ev_id e)
               \<and> applyRawEvents cfg cls m post = Inr m)"
proof (induction xs arbitrary: m rule: rev_induct)
  case Nil
  then show ?case by simp
next
  case (snoc raw ys)
  from snoc.prems(1) obtain m1 where
    ys: "applyRawEvents cfg cls m0 ys = Inr m1" and
    raw: "applyRawEvent cfg cls m1 raw = Inr m"
    by (auto simp: applyRawEvents_append split: sum.splits)
  from applyRawEvent_cases [OF raw] consider
    (same) "m = m1" | (applied) "currentEventId m = Some (ev_id raw)" by blast
  then show ?case
  proof cases
    case applied
    then have "ys @ [raw] = ys @ raw # [] \<and> currentEventId m = Some (ev_id raw)
               \<and> applyRawEvents cfg cls m [] = Inr m" by simp
    then show ?thesis by blast
  next
    case same
    from snoc.IH [OF ys snoc.prems(2)] consider
      (start) "m1 = m0"
      | (later) pre e post where "ys = pre @ e # post" "currentEventId m1 = Some (ev_id e)"
          "applyRawEvents cfg cls m1 post = Inr m1" by blast
    then show ?thesis
    proof cases
      case start
      with same show ?thesis by simp
    next
      case later
      with same raw have "ys @ [raw] = pre @ e # (post @ [raw])
          \<and> currentEventId m = Some (ev_id e)
          \<and> applyRawEvents cfg cls m (post @ [raw]) = Inr m"
        by (simp add: applyRawEvents_append)
      then show ?thesis by blast
    qed
  qed
qed

lemma findIndex_distinct:
  "distinct (map f (pre @ e # post)) \<Longrightarrow>
   findIndex (\<lambda>x. Some (f x) = Some (f e)) (pre @ e # post) = Some (length pre)"
  by (induction pre) auto

lemma streamOptions_None: "currentEventId m = None \<Longrightarrow> streamOptions m = None"
  by (simp add: streamOptions_def truthy_def)

lemma applyLowerBound_None: "applyLowerBound None xs = xs"
  by (simp add: applyLowerBound_def)

lemma streamEvents_None:
  "streamEvents store subject None rec = filterEventsBySubject store subject rec"
  by (simp add: streamEvents_def applyLowerBound_def applyUpperBound_def
      applyLatestByEventType_def)

lemma streamEvents_streamOptions:
  "streamEvents store subject (streamOptions m) rec =
     applyLowerBound (streamOptions m) (filterEventsBySubject store subject rec)"
  by (simp add: streamEvents_def streamOptions_def applyUpperBound_def
      applyLatestByEventType_def truthy_def)

lemma resume_stream:
  assumes d: "distinct (map ev_id (F1 @ F2))"
    and ne: "\<forall>e \<in> set (F1 @ F2). ev_id e \<noteq> []"
    and r: "applyRawEvents cfg cls m0 F1 = Inr m1"
    and z: "currentEventId m0 = None"
  shows "applyRawEvents cfg cls m1 (applyLowerBound (streamOptions m1) (F1 @ F2)) =
           applyRawEvents cfg cls m0 (F1 @ F2)
         \<and> orNull (currentEventId m1) = currentEventId m1"
proof -
  have whole: "applyRawEvents cfg cls m0 (F1 @ F2) = applyRawEvents cfg cls m1 F2"
    using r by (simp add: applyRawEvents_append)
  from applyRawEvents_position [OF r z] consider
    (start) "m1 = m0"
    | (later) pre e post where "F1 = pre @ e # post" "currentEventId m1 = Some (ev_id e)"
        "applyRawEvents cfg cls m1 post = Inr m1" by blast
  then show ?thesis
  proof cases
    case start
    with z show ?thesis
      by (simp add: streamOptions_None applyLowerBound_def orNull_def truthy_def)
  next
    case later
    from later(1) ne have nonempty: "ev_id e \<noteq> []" by simp
    from d later(1) have "distinct (map ev_id (pre @ e # (post @ F2)))" by simp
    then have idx: "findIndex (\<lambda>x. Some (ev_id x) = Some (ev_id e)) (pre @ e # (post @ F2))
                    = Some (length pre)"
      by (rule findIndex_distinct)
    have "applyLowerBound (streamOptions m1) (F1 @ F2) = post @ F2"
      using later(1,2) nonempty idx
      by (simp add: applyLowerBound_def streamOptions_def truthy_def)
    moreover have "applyRawEvents cfg cls m1 (post @ F2) = applyRawEvents cfg cls m1 F2"
      using later(3) by (simp add: applyRawEvents_append)
    ultimately show ?thesis
      using whole later(2) nonempty by (simp add: orNull_def truthy_def)
  qed
qed

lemma filterEventsBySubject_take:
  "adapter_events store = E \<Longrightarrow>
   filterEventsBySubject store subject rec =
     filterEventsBySubject (store\<lparr>adapter_events := take k E\<rparr>) subject rec
     @ filterEventsBySubject (store\<lparr>adapter_events := drop k E\<rparr>) subject rec"
proof -
  assume e: "adapter_events store = E"
  have "filter P E = filter P (take k E) @ filter P (drop k E)" for P :: "'a RawEvent \<Rightarrow> bool"
    by (metis append_take_drop_id filter_append)
  with e show ?thesis by (simp add: filterEventsBySubject_def)
qed

lemma filterEventsBySubject_subset:
  "set (filterEventsBySubject store subject rec) \<subseteq> set (adapter_events store)"
  by (auto simp: filterEventsBySubject_def)

lemma filterEventsBySubject_distinct:
  "distinct (map ev_id (adapter_events store)) \<Longrightarrow>
   distinct (map ev_id (filterEventsBySubject store subject rec))"
  by (simp add: filterEventsBySubject_def distinct_map_filter)

lemma merger_resume:
  fixes cfg :: "('s, 'r, 'v) CommandRouterConfig"
  assumes E: "adapter_events store = E"
    and d: "distinct (map ev_id E)"
    and ne: "\<forall>e \<in> set E. ev_id e \<noteq> []"
    and first: "fst (merger cfg (store\<lparr>adapter_events := take k E\<rparr>) subject cls rec None effs1)
                = Inr cv"
  shows "fst (merger cfg store subject cls rec (Some cv) effs2) =
         fst (merger cfg store subject cls rec None effs3)"
proof -
  let ?m0 = "mergeStart None :: 's Merge"
  let ?F1 = "filterEventsBySubject (store\<lparr>adapter_events := take k E\<rparr>) subject rec"
  let ?F2 = "filterEventsBySubject (store\<lparr>adapter_events := drop k E\<rparr>) subject rec"
  have z: "currentEventId ?m0 = None" by (simp add: mergeStart_def)
  have F: "filterEventsBySubject store subject rec = ?F1 @ ?F2"
    using E by (rule filterEventsBySubject_take)
  from first obtain m1 where
    r: "applyRawEvents cfg cls ?m0 ?F1 = Inr m1" and
    cv: "cv = \<lparr>cv_eventId = currentEventId m1, cv_instance = currentInstance m1,
              cv_sourcedSubjectIds = currentSourced m1\<rparr>"
    by (auto simp: merger_def mergeFinish_def streamOptions_None [OF z] streamEvents_None Let_def
        split: sum.splits)
  have dF: "distinct (map ev_id (?F1 @ ?F2))"
    using filterEventsBySubject_distinct [of store subject rec] E d F by simp
  have neF: "\<forall>e \<in> set (?F1 @ ?F2). ev_id e \<noteq> []"
    using filterEventsBySubject_subset [of store subject rec] E ne F by auto
  from resume_stream [OF dF neF r z] have
    res: "applyRawEvents cfg cls m1 (applyLowerBound (streamOptions m1) (?F1 @ ?F2)) =
            applyRawEvents cfg cls ?m0 (?F1 @ ?F2)" and
    same: "orNull (currentEventId m1) = currentEventId m1" by simp_all
  have start: "mergeStart (Some cv) = m1"
    using cv same by (simp add: mergeStart_def)
  show ?thesis
    using res F
    by (simp add: merger_def start Let_def streamEvents_streamOptions
        streamOptions_None [OF z] applyLowerBound_None mergeFinish_def)
qed


lemma fst_merger_effects:
  "fst (merger cfg store subject cls rec cached effs) =
   fst (merger cfg store subject cls rec cached [])"
  by (simp add: merger_def Let_def)

lemma rebuildState_NoCache:
  "mode \<noteq> SM_NONE \<Longrightarrow> stateCache st = NoStateRebuildingCache \<Longrightarrow>
   fst (rebuildState cfg st subject cls mode) =
     rebuilt (fst (merger cfg (eventStore st) subject cls (mode = SM_RECURSIVE) None []))
   \<and> stateCache (snd (rebuildState cfg st subject cls mode)) = NoStateRebuildingCache"
  by (simp add: rebuildState_def fetchAndMerge_def rebuilt_def Let_def merger_def
      split: prod.splits sum.splits)

lemma rebuildState_InMemory:
  assumes "mode \<noteq> SM_NONE" and "stateCache st = InMemoryStateCache mem"
    and "key = \<lparr>key_subject = subject, key_instanceClass = cls, key_sourcingMode = mode\<rparr>"
    and "cached = map_of (cache_entries mem) (buildKey key)"
    and "result = fst (merger cfg (eventStore st) subject cls (mode = SM_RECURSIVE) cached [])"
  shows "fst (rebuildState cfg st subject cls mode) = rebuilt result
   \<and> stateCache (snd (rebuildState cfg st subject cls mode)) =
       (case result of
          Inl e \<Rightarrow> InMemoryStateCache (snd (fetchCached mem key))
        | Inr merged \<Rightarrow> InMemoryStateCache (storeMerged (snd (fetchCached mem key)) key merged))"
  using assms
  by (simp add: rebuildState_def fetchAndMerge_def rebuilt_def Let_def merger_def fetchCached_def
      split: prod.splits sum.splits)

lemma fetchCached_cold:
  "map_of (cache_entries mem) (buildKey key) = None \<Longrightarrow> fetchCached mem key = (None, mem)"
  by (simp add: fetchCached_def)

lemma storeMerged_lookup:
  "map_of (cache_entries (storeMerged mem key merged)) (buildKey key) = None
   \<or> map_of (cache_entries (storeMerged mem key merged)) (buildKey key) = Some merged"
proof -
  let ?k = "buildKey key"
  let ?entries = "AList.update ?k merged (cache_entries mem)"
  have found: "map_of ?entries ?k = Some merged"
    by (simp add: AList.update_conv)
  have deleted: "map_of (AList.delete k' ?entries) ?k = None
                 \<or> map_of (AList.delete k' ?entries) ?k = Some merged" for k'
    using found by (simp add: AList.delete_conv)
  show ?thesis
  proof (cases "int (length ?entries) > cache_capacity mem")
    case False
    then have "cache_entries (storeMerged mem key merged) = ?entries"
      by (simp add: storeMerged_def Let_def)
    with found show ?thesis by simp
  next
    case True
    from found obtain firstKey v rest where shape: "?entries = (firstKey, v) # rest"
      by (cases ?entries) auto
    have "cache_entries (storeMerged mem key merged) = AList.delete firstKey ?entries"
      using True by (simp add: storeMerged_def Let_def shape del: AList.delete_simps)
    with deleted [of firstKey] show ?thesis by simp
  qed
qed

text \<open>
  C3. Let a store hold the events \<open>E\<close>, with distinct and non-empty ids (the adapter's
  are \<open>event-0\<close>, \<open>event-1\<close>, ...), and let the cache hold nothing for the key. Rebuilding
  while the store holds only the first \<open>k\<close> events, which leaves its checkpoint in the
  cache, and rebuilding again once the store holds all of \<open>E\<close>, which resumes after the
  checkpoint's event id, returns what one rebuild over all of \<open>E\<close> returns: the same
  instance and last event id, or the same exception of an upcaster.
\<close>

theorem C3_rebuild_split:
  fixes cfg :: "('s, 'r, 'v) CommandRouterConfig"
  assumes E: "adapter_events (eventStore st) = E"
    and d: "distinct (map ev_id E)"
    and ne: "\<forall>e \<in> set E. ev_id e \<noteq> []"
    and cold: "coldCache (stateCache st)
                 \<lparr>key_subject = subject, key_instanceClass = cls, key_sourcingMode = mode\<rparr>"
  shows "fst (rebuildState cfg
                ((snd (rebuildState cfg
                        (st\<lparr>eventStore := (eventStore st)\<lparr>adapter_events := take k E\<rparr>\<rparr>)
                        subject cls mode))
                 \<lparr>eventStore := eventStore st\<rparr>)
                subject cls mode)
         = fst (rebuildState cfg st subject cls mode)"
proof (cases "mode = SM_NONE")
  case True
  then show ?thesis by (simp add: rebuildState_def)
next
  case False
  let ?key = "\<lparr>key_subject = subject, key_instanceClass = cls, key_sourcingMode = mode\<rparr>"
  let ?early = "st\<lparr>eventStore := (eventStore st)\<lparr>adapter_events := take k E\<rparr>\<rparr>"
  let ?after = "(snd (rebuildState cfg ?early subject cls mode))\<lparr>eventStore := eventStore st\<rparr>"
  let ?rec = "mode = SM_RECURSIVE"
  let ?coldResult = "fst (merger cfg (eventStore st) subject cls ?rec None [])"
  show ?thesis
  proof (cases "stateCache st")
    case NoStateRebuildingCache
    then have "stateCache ?after = NoStateRebuildingCache"
      using rebuildState_NoCache [OF False, of ?early cfg subject cls] by simp
    then show ?thesis
      using NoStateRebuildingCache rebuildState_NoCache [OF False, of ?after cfg subject cls]
        rebuildState_NoCache [OF False, of st cfg subject cls]
      by simp
  next
    case (InMemoryStateCache mem)
    with cold have none: "map_of (cache_entries mem) (buildKey ?key) = None"
      by (simp add: coldCache_def)
    have whole: "fst (rebuildState cfg st subject cls mode) = rebuilt ?coldResult"
      using rebuildState_InMemory [OF False InMemoryStateCache refl refl refl, of cfg subject cls]
        none by simp
    let ?firstResult =
      "fst (merger cfg ((eventStore st)\<lparr>adapter_events := take k E\<rparr>) subject cls ?rec None [])"
    have early: "stateCache ?early = InMemoryStateCache mem"
      using InMemoryStateCache by simp
    have afterCache: "stateCache ?after =
        (case ?firstResult of
           Inl e \<Rightarrow> InMemoryStateCache mem
         | Inr merged \<Rightarrow> InMemoryStateCache (storeMerged mem ?key merged))"
      using rebuildState_InMemory [OF False early refl refl refl, of cfg subject cls]
        none fetchCached_cold [OF none]
      by (simp split: sum.splits)
    show ?thesis
    proof (cases ?firstResult)
      case (Inl e)
      with afterCache have c: "stateCache ?after = InMemoryStateCache mem" by simp
      show ?thesis
        using rebuildState_InMemory [OF False c refl refl refl, of cfg subject cls] none whole
        by simp
    next
      case (Inr merged)
      with afterCache have
        c: "stateCache ?after = InMemoryStateCache (storeMerged mem ?key merged)" by simp
      let ?cached = "map_of (cache_entries (storeMerged mem ?key merged)) (buildKey ?key)"
      have second: "fst (rebuildState cfg ?after subject cls mode) =
          rebuilt (fst (merger cfg (eventStore st) subject cls ?rec ?cached []))"
        using rebuildState_InMemory [OF False c refl refl refl, of cfg subject cls] by simp
      from storeMerged_lookup [of mem ?key merged] show ?thesis
      proof (elim disjE)
        assume "?cached = None"
        with second whole show ?thesis by simp
      next
        assume kept: "?cached = Some merged"
        have "fst (merger cfg (eventStore st) subject cls ?rec (Some merged) []) = ?coldResult"
          using merger_resume [OF E d ne Inr] .
        with kept second whole show ?thesis by simp
      qed
    qed
  qed
qed

text \<open>On the sample: three events, split after the second.\<close>

theorem C3_rebuild_split_witness:
  "adapter_events (eventStore (sampleState sampleHistory)) = sampleHistory
   \<and> distinct (map ev_id sampleHistory)
   \<and> [] \<notin> set (map ev_id sampleHistory)
   \<and> coldCache (stateCache (sampleState sampleHistory))
        \<lparr>key_subject = ''/item/1'', key_instanceClass = ''Item'', key_sourcingMode = SM_LOCAL\<rparr>
   \<and> fst (rebuildState sampleConfig
             ((sampleState sampleHistory)
              \<lparr>eventStore := (eventStore (sampleState sampleHistory))
                                \<lparr>adapter_events := take 2 sampleHistory\<rparr>\<rparr>)
             ''/item/1'' ''Item'' SM_LOCAL)
      = Inr (Some (Item ''b''), Some ''event-1'')
   \<and> fst (rebuildState sampleConfig
             ((snd (rebuildState sampleConfig
                     ((sampleState sampleHistory)
                      \<lparr>eventStore := (eventStore (sampleState sampleHistory))
                                        \<lparr>adapter_events := take 2 sampleHistory\<rparr>\<rparr>)
                     ''/item/1'' ''Item'' SM_LOCAL))
              \<lparr>eventStore := eventStore (sampleState sampleHistory)\<rparr>)
             ''/item/1'' ''Item'' SM_LOCAL)
      = Inr (Some (Item ''c''), Some ''event-2'')
   \<and> fst (rebuildState sampleConfig (sampleState sampleHistory) ''/item/1'' ''Item'' SM_LOCAL)
      = Inr (Some (Item ''c''), Some ''event-2'')"
proof -
  have E: "adapter_events (eventStore (sampleState sampleHistory)) = sampleHistory"
    by (simp add: sampleState_def)
  have d: "distinct (map ev_id sampleHistory)"
    by (simp add: sampleHistory_def sampleEvent_def)
  have ne: "\<forall>e \<in> set sampleHistory. ev_id e \<noteq> []"
    by (simp add: sampleHistory_def sampleEvent_def)
  have cold: "coldCache (stateCache (sampleState sampleHistory))
        \<lparr>key_subject = ''/item/1'', key_instanceClass = ''Item'', key_sourcingMode = SM_LOCAL\<rparr>"
    by (simp add: coldCache_def sampleState_def)
  have whole: "fst (rebuildState sampleConfig (sampleState sampleHistory) ''/item/1'' ''Item''
                 SM_LOCAL) = Inr (Some (Item ''c''), Some ''event-2'')"
    by (simp add: router_defs sample_defs sampleHistory_def)
  have first: "fst (rebuildState sampleConfig
             ((sampleState sampleHistory)
              \<lparr>eventStore := (eventStore (sampleState sampleHistory))
                                \<lparr>adapter_events := take 2 sampleHistory\<rparr>\<rparr>)
             ''/item/1'' ''Item'' SM_LOCAL)
      = Inr (Some (Item ''b''), Some ''event-1'')"
    by (simp add: router_defs sample_defs sampleHistory_def)
  show ?thesis
    using C3_rebuild_split [OF E d ne cold, of sampleConfig 2] E d ne cold whole first
    by auto
qed

section \<open>Properties of the command router\<close>

lemma rebuildState_calls:
  "rebuildState cfg st subject cls mode = (result, st1) \<Longrightarrow>
   eventStore st1 = eventStore st
   \<and> filter isCommandHandlerInvoked (effects st1) = filter isCommandHandlerInvoked (effects st)
   \<and> filter isPublishEventsCalled (effects st1) = filter isPublishEventsCalled (effects st)"
  by (auto simp: rebuildState_def fetchAndMerge_def merger_def Let_def
      split: if_splits prod.splits sum.splits StateRebuildingCache.splits)

lemma executeCommand_invokes:
  "\<exists>rest. effects (snd (executeCommand cfg handlerDefinition st command metadata inst)) =
     effects st @ CommandHandlerInvoked (constructorName (cmd_object command)) # rest"
  by (auto simp: executeCommand_def publishCaptured_def Let_def split: sum.splits prod.splits)

text \<open>
  C1. Let \<open>send\<close> find a handler definition, and let the rebuild return \<open>lastEventId\<close>
  and leave the state \<open>st1\<close>. For a command that declares \<open>NEW\<close>, a \<open>lastEventId\<close> that
  is not null makes \<open>send\<close> fail with the state \<open>st1\<close>; for \<open>EXISTS\<close>, a null
  \<open>lastEventId\<close> does the same. In \<open>st1\<close> the store is the one \<open>send\<close> started with, and
  no command handler has been called and no \<open>publishEvents\<close> made beyond those before
  \<open>send\<close>: the rebuild has only written the cache and read the stream. For \<open>NONE\<close> (or a
  command without the method) nothing is checked: \<open>send\<close> goes on to call the handler,
  whatever \<open>lastEventId\<close> is.
\<close>

theorem C1_subject_condition:
  assumes def: "commandHandlersGet cfg (constructorName (cmd_object command)) = Some handlerDefinition"
    and rb: "rebuildState cfg st (getSubject command) (ch_instanceClass handlerDefinition)
               (ch_sourcingMode handlerDefinition) = (Inr (inst, lastEventId), st1)"
  shows "(getSubjectCondition command = Some SC_NEW \<and> lastEventId \<noteq> None \<longrightarrow>
            send cfg st command metadata =
              (Inl (Error (''Subject '' @ quoted (getSubject command)
                           @ '' must be new (not exist) but it already exists'')), st1))
       \<and> (getSubjectCondition command = Some SC_EXISTS \<and> lastEventId = None \<longrightarrow>
            send cfg st command metadata =
              (Inl (Error (''Subject '' @ quoted (getSubject command)
                           @ '' must exist but it does not'')), st1))
       \<and> (getSubjectCondition command = Some SC_NONE \<or> getSubjectCondition command = None \<longrightarrow>
            send cfg st command metadata = executeCommand cfg handlerDefinition st1 command metadata inst)
       \<and> eventStore st1 = eventStore st
       \<and> filter isCommandHandlerInvoked (effects st1) = filter isCommandHandlerInvoked (effects st)
       \<and> filter isPublishEventsCalled (effects st1) = filter isPublishEventsCalled (effects st)"
  using def rb rebuildState_calls [OF rb]
  by (auto simp: send_def Let_def validateSubjectCondition_def)

text \<open>
  On the sample: \<open>NEW\<close> against a store that holds a \<open>Created\<close> event, \<open>EXISTS\<close> against
  an empty store, and a command without condition.
\<close>

theorem C1_subject_condition_witness:
  "commandHandlersGet sampleConfig (constructorName (cmd_object (sampleCommand ''CreateAndRename'' (Some SC_NEW))))
     = Some (sampleDefinition ''CreateAndRename'' SM_LOCAL)
   \<and> rebuildState sampleConfig (sampleState [sampleEvent ''event-0'' ''Created'' ''a''])
        ''/item/1'' ''Item'' SM_LOCAL
      = (Inr (Some (Item ''a''), Some ''event-0''),
         sampleCached (Some (Item ''a'')) (Some ''event-0'')
           (sampleState [sampleEvent ''event-0'' ''Created'' ''a'']))
   \<and> send sampleConfig (sampleState [sampleEvent ''event-0'' ''Created'' ''a''])
        (sampleCommand ''CreateAndRename'' (Some SC_NEW)) Map.empty
      = (Inl (Error (''Subject '' @ quoted ''/item/1''
                     @ '' must be new (not exist) but it already exists'')),
         sampleCached (Some (Item ''a'')) (Some ''event-0'')
           (sampleState [sampleEvent ''event-0'' ''Created'' ''a'']))
   \<and> commandHandlersGet sampleConfig (constructorName (cmd_object (sampleCommand ''Rename'' (Some SC_EXISTS))))
     = Some (sampleDefinition ''Rename'' SM_LOCAL)
   \<and> rebuildState sampleConfig (sampleState []) ''/item/1'' ''Item'' SM_LOCAL
      = (Inr (None, None), sampleCached None None (sampleState []))
   \<and> send sampleConfig (sampleState []) (sampleCommand ''Rename'' (Some SC_EXISTS)) Map.empty
      = (Inl (Error (''Subject '' @ quoted ''/item/1'' @ '' must exist but it does not'')),
         sampleCached None None (sampleState []))
   \<and> send sampleConfig (sampleState []) (sampleCommand ''Rename'' None) Map.empty
      = executeCommand sampleConfig (sampleDefinition ''Rename'' SM_LOCAL)
          (sampleCached None None (sampleState [])) (sampleCommand ''Rename'' None) Map.empty None"
proof -
  let ?st = "sampleState [sampleEvent ''event-0'' ''Created'' ''a'']"
  have d1: "commandHandlersGet sampleConfig
              (constructorName (cmd_object (sampleCommand ''CreateAndRename'' (Some SC_NEW))))
            = Some (sampleDefinition ''CreateAndRename'' SM_LOCAL)"
    by (simp add: router_defs sample_defs sampleDefinition_def)
  have r1: "rebuildState sampleConfig ?st
              (getSubject (sampleCommand ''CreateAndRename'' (Some SC_NEW)))
              (ch_instanceClass (sampleDefinition ''CreateAndRename'' SM_LOCAL))
              (ch_sourcingMode (sampleDefinition ''CreateAndRename'' SM_LOCAL))
            = (Inr (Some (Item ''a''), Some ''event-0''),
               sampleCached (Some (Item ''a'')) (Some ''event-0'') ?st)"
    by (simp add: router_defs sample_defs sampleDefinition_def sampleCached_def)
  have d2: "commandHandlersGet sampleConfig
              (constructorName (cmd_object (sampleCommand ''Rename'' c)))
            = Some (sampleDefinition ''Rename'' SM_LOCAL)" for c
    by (simp add: router_defs sample_defs sampleDefinition_def)
  have r2: "rebuildState sampleConfig (sampleState [])
              (getSubject (sampleCommand ''Rename'' c))
              (ch_instanceClass (sampleDefinition ''Rename'' SM_LOCAL))
              (ch_sourcingMode (sampleDefinition ''Rename'' SM_LOCAL))
            = (Inr (None, None), sampleCached None None (sampleState []))" for c
    by (simp add: router_defs sample_defs sampleDefinition_def sampleCached_def)
  have g: "getSubject (sampleCommand clazz c) = ''/item/1''"
    "getSubjectCondition (sampleCommand clazz c) = c" for clazz c
    by (simp_all add: sampleCommand_def)
  have i: "ch_instanceClass (sampleDefinition clazz m) = ''Item''"
    "ch_sourcingMode (sampleDefinition clazz m) = m" for clazz m
    by (simp_all add: sampleDefinition_def)
  show ?thesis
    using C1_subject_condition [OF d1 r1, where metadata = Map.empty]
      C1_subject_condition [OF d2 [of "Some SC_EXISTS"] r2 [of "Some SC_EXISTS"],
        where metadata = Map.empty]
      C1_subject_condition [OF d2 [of None] r2 [of None], where metadata = Map.empty]
      d1 r1 d2 [of "Some SC_EXISTS"] r2 [of "Some SC_EXISTS"]
    by (simp add: g i)
qed

text \<open>
  C9. For a handler definition of sourcing mode \<open>NONE\<close> the rebuild is skipped:
  \<open>rebuildState\<close> returns a null instance and a null \<open>lastEventId\<close> and leaves the state
  as it is, whatever the store holds. So a command that declares \<open>EXISTS\<close> always fails,
  and a command that declares \<open>NEW\<close> always passes the check and reaches its handler.
\<close>

theorem C9_sourcing_none:
  assumes def: "commandHandlersGet cfg (constructorName (cmd_object command)) = Some handlerDefinition"
    and none: "ch_sourcingMode handlerDefinition = SM_NONE"
  shows "rebuildState cfg st (getSubject command) (ch_instanceClass handlerDefinition)
           (ch_sourcingMode handlerDefinition) = (Inr (None, None), st)
       \<and> (getSubjectCondition command = Some SC_EXISTS \<longrightarrow>
            send cfg st command metadata =
              (Inl (Error (''Subject '' @ quoted (getSubject command)
                           @ '' must exist but it does not'')), st))
       \<and> (getSubjectCondition command = Some SC_NEW \<longrightarrow>
            send cfg st command metadata = executeCommand cfg handlerDefinition st command metadata None)"
  using def none
  by (simp add: send_def Let_def validateSubjectCondition_def rebuildState_def)

text \<open>
  On the sample, with a \<open>Created\<close> event for the subject in the store: \<open>EXISTS\<close> fails and
  \<open>NEW\<close> passes.
\<close>

theorem C9_sourcing_none_witness:
  "commandHandlersGet sampleConfig
     (constructorName (cmd_object (sampleCommand ''Touch'' (Some SC_EXISTS))))
     = Some (sampleDefinition ''Touch'' SM_NONE)
   \<and> ch_sourcingMode (sampleDefinition ''Touch'' SM_NONE) = SM_NONE
   \<and> send sampleConfig (sampleState [sampleEvent ''event-0'' ''Created'' ''a''])
        (sampleCommand ''Touch'' (Some SC_EXISTS)) Map.empty
      = (Inl (Error (''Subject '' @ quoted ''/item/1'' @ '' must exist but it does not'')),
         sampleState [sampleEvent ''event-0'' ''Created'' ''a''])
   \<and> send sampleConfig (sampleState [sampleEvent ''event-0'' ''Created'' ''a''])
        (sampleCommand ''Touch'' (Some SC_NEW)) Map.empty
      = executeCommand sampleConfig (sampleDefinition ''Touch'' SM_NONE)
          (sampleState [sampleEvent ''event-0'' ''Created'' ''a''])
          (sampleCommand ''Touch'' (Some SC_NEW)) Map.empty None"
proof -
  have d: "commandHandlersGet sampleConfig
             (constructorName (cmd_object (sampleCommand ''Touch'' c)))
           = Some (sampleDefinition ''Touch'' SM_NONE)" for c
    by (simp add: router_defs sample_defs sampleDefinition_def)
  have n: "ch_sourcingMode (sampleDefinition ''Touch'' SM_NONE) = SM_NONE"
    by (simp add: sampleDefinition_def)
  have g: "getSubject (sampleCommand clazz c) = ''/item/1''"
    "getSubjectCondition (sampleCommand clazz c) = c" for clazz c
    by (simp_all add: sampleCommand_def)
  show ?thesis
    using C9_sourcing_none [OF d [of "Some SC_EXISTS"] n,
        where st = "sampleState [sampleEvent ''event-0'' ''Created'' ''a'']"
          and metadata = Map.empty]
      C9_sourcing_none [OF d [of "Some SC_NEW"] n,
        where st = "sampleState [sampleEvent ''event-0'' ''Created'' ''a'']"
          and metadata = Map.empty]
      d [of "Some SC_EXISTS"] n
    by (simp add: g)
qed

lemma applyRawEvents_total:
  "\<forall>raw \<in> set xs. \<exists>ues. upcastedEvents (cfg_upcasters cfg) raw = Inr ues \<Longrightarrow>
   \<exists>m1. applyRawEvents cfg cls m xs = Inr m1"
proof (induction xs arbitrary: m)
  case Nil
  then show ?case by simp
next
  case (Cons raw xs)
  from Cons.prems obtain ues where "upcastedEvents (cfg_upcasters cfg) raw = Inr ues" by auto
  then have "applyRawEvent cfg cls m raw = Inr (foldl (applyUpcasted cfg cls) m ues)"
    by (simp add: applyRawEvent_def)
  with Cons show ?case by simp
qed

lemma applyLowerBound_subset: "set (applyLowerBound options xs) \<subseteq> set xs"
  by (auto simp: applyLowerBound_def split: option.splits dest: in_set_dropD)

lemma streamed_subset:
  "set (streamEvents store subject (streamOptions m) rec) \<subseteq> set (adapter_events store)"
  using applyLowerBound_subset filterEventsBySubject_subset
  by (fastforce simp: streamEvents_streamOptions)

lemma merger_total:
  assumes "\<forall>raw \<in> set (adapter_events store). \<exists>ues. upcastedEvents (cfg_upcasters cfg) raw = Inr ues"
  shows "\<exists>cv. fst (merger cfg store subject cls rec cached effs) = Inr cv"
proof -
  let ?m = "mergeStart cached"
  have "\<forall>raw \<in> set (streamEvents store subject (streamOptions ?m) rec).
          \<exists>ues. upcastedEvents (cfg_upcasters cfg) raw = Inr ues"
    using assms streamed_subset [of store subject ?m rec] by blast
  from applyRawEvents_total [OF this, of cls ?m] show ?thesis
    by (auto simp: merger_def Let_def mergeFinish_def)
qed

lemma rebuildState_total:
  assumes "\<forall>raw \<in> set (adapter_events (eventStore st)).
             \<exists>ues. upcastedEvents (cfg_upcasters cfg) raw = Inr ues"
  shows "\<exists>v. fst (rebuildState cfg st subject cls mode) = Inr v"
proof (cases "mode = SM_NONE")
  case True
  then show ?thesis by (simp add: rebuildState_def)
next
  case False
  show ?thesis
  proof (cases "stateCache st")
    case NoStateRebuildingCache
    from merger_total [OF assms, of subject cls "mode = SM_RECURSIVE" None "[]"]
    show ?thesis
      using rebuildState_NoCache [OF False NoStateRebuildingCache, of cfg subject cls]
      by (auto simp: rebuilt_def)
  next
    case (InMemoryStateCache mem)
    let ?key = "\<lparr>key_subject = subject, key_instanceClass = cls, key_sourcingMode = mode\<rparr>"
    from merger_total [OF assms, of subject cls "mode = SM_RECURSIVE"
        "map_of (cache_entries mem) (buildKey ?key)" "[]"]
    show ?thesis
      using rebuildState_InMemory [OF False InMemoryStateCache refl refl refl, of cfg subject cls]
      by (auto simp: rebuilt_def)
  qed
qed

text \<open>
  C10. Let the class of an upcasted event resolve and its data deserialize, and let
  \<open>applyStateRebuilding\<close> throw, which only a state rebuilding handler makes it do. Then
  the event is skipped: the merger's instance, event id and sourced subject ids stay as
  they were, so the id of the skipped event is not recorded, and the loop goes on with
  the next raw event from the same variables. The exception does not leave the rebuild:
  unless an upcaster throws, \<open>rebuildState\<close> returns a value to \<open>send\<close>.
\<close>

theorem C10_handler_exception_skipped:
  assumes cls: "getClass cfg (ev_type upcastedEvent) = Inr eventClass"
    and des: "deserialize cfg (ev_data upcastedEvent) eventClass = Inr eventData"
    and thrown: "applyStateRebuilding cfg (currentInstance m) (ed_payload eventData)
                   (ed_metadata eventData) (ev_subject upcastedEvent) instanceClass
                   (Some upcastedEvent) = Inl e"
  shows "applyUpcasted cfg instanceClass m upcastedEvent = m
       \<and> (upcastedEvents (cfg_upcasters cfg) rawEvent = Inr [upcastedEvent] \<longrightarrow>
            applyRawEvents cfg instanceClass m (rawEvent # rest) =
              applyRawEvents cfg instanceClass m rest)
       \<and> ((\<forall>raw \<in> set (adapter_events (eventStore st)).
              \<exists>ues. upcastedEvents (cfg_upcasters cfg) raw = Inr ues) \<longrightarrow>
            (\<exists>v. fst (rebuildState cfg st subject instanceClass mode) = Inr v))"
proof (intro conjI impI)
  show skip: "applyUpcasted cfg instanceClass m upcastedEvent = m"
    using cls des thrown by (simp add: applyUpcasted_def)
  assume "upcastedEvents (cfg_upcasters cfg) rawEvent = Inr [upcastedEvent]"
  with skip show "applyRawEvents cfg instanceClass m (rawEvent # rest) =
      applyRawEvents cfg instanceClass m rest"
    by (simp add: applyRawEvent_def)
next
  assume "\<forall>raw \<in> set (adapter_events (eventStore st)).
            \<exists>ues. upcastedEvents (cfg_upcasters cfg) raw = Inr ues"
  then show "\<exists>v. fst (rebuildState cfg st subject instanceClass mode) = Inr v"
    by (rule rebuildState_total)
qed

text \<open>
  On the sample: a \<open>Renamed\<close> event without a name, on which the handler throws, after a
  \<open>Created\<close> event. The rebuild returns the created item and the id of the first event.
\<close>

theorem C10_handler_exception_skipped_witness:
  "getClass sampleConfig (ev_type malformed) = Inr ''Renamed''
   \<and> deserialize sampleConfig (ev_data malformed) ''Renamed''
      = Inr \<lparr>ed_metadata = Map.empty,
             ed_payload = \<lparr>constructorName = ''Renamed'', props = Map.empty\<rparr>\<rparr>
   \<and> applyStateRebuilding sampleConfig (Some (Item ''a''))
        \<lparr>constructorName = ''Renamed'', props = Map.empty\<rparr> Map.empty ''/item/1'' ''Item''
        (Some malformed)
      = Inl (Error ''name is not a string'')
   \<and> applyUpcasted sampleConfig ''Item''
        \<lparr>currentInstance = Some (Item ''a''), currentEventId = Some ''event-0'',
         currentSourced = [(''/item/1'', ''event-0'')]\<rparr> malformed
      = \<lparr>currentInstance = Some (Item ''a''), currentEventId = Some ''event-0'',
         currentSourced = [(''/item/1'', ''event-0'')]\<rparr>
   \<and> fst (rebuildState sampleConfig
             (sampleState [sampleEvent ''event-0'' ''Created'' ''a'', malformed])
             ''/item/1'' ''Item'' SM_LOCAL)
      = Inr (Some (Item ''a''), Some ''event-0'')"
proof -
  let ?m = "\<lparr>currentInstance = Some (Item ''a''), currentEventId = Some ''event-0'',
             currentSourced = [(''/item/1'', ''event-0'')]\<rparr>"
  let ?ed = "\<lparr>ed_metadata = Map.empty,
              ed_payload = \<lparr>constructorName = ''Renamed'', props = (Map.empty :: unit Record)\<rparr>\<rparr>"
  have c: "getClass sampleConfig (ev_type malformed) = Inr ''Renamed''"
    by (simp add: sample_defs malformed_def)
  have d: "deserialize sampleConfig (ev_data malformed) ''Renamed'' = Inr ?ed"
    by (simp add: sample_defs malformed_def)
  have t: "applyStateRebuilding sampleConfig (currentInstance ?m) (ed_payload ?ed)
             (ed_metadata ?ed) (ev_subject malformed) ''Item'' (Some malformed)
           = Inl (Error ''name is not a string'')"
    by (simp add: router_defs sample_defs malformed_def)
  have r: "fst (rebuildState sampleConfig
             (sampleState [sampleEvent ''event-0'' ''Created'' ''a'', malformed])
             ''/item/1'' ''Item'' SM_LOCAL)
      = Inr (Some (Item ''a''), Some ''event-0'')"
    by (simp add: router_defs sample_defs malformed_def)
  have s: "ev_subject malformed = ''/item/1''"
    by (simp add: sample_defs malformed_def)
  show ?thesis
    using C10_handler_exception_skipped [OF c d t] c d t r by (simp add: s)
qed




section \<open>Properties of rebuilds that overlap\<close>

lemma rebuildState_begin_finish:
  "rebuildState cfg st subject cls mode =
     (case beginRebuild cfg st subject cls mode of
        (pending, st1) \<Rightarrow> finishRebuild cfg st1 pending)"
  by (cases "stateCache st")
    (auto simp: rebuildState_def fetchAndMerge_def merger_def beginRebuild_def finishRebuild_def
      Let_def split: prod.splits sum.splits)

lemma send_begin_finish:
  "send cfg st command metadata =
     (case beginSend cfg st command of
        (pending, st1) \<Rightarrow> finishSend cfg st1 command metadata pending)"
proof (cases "commandHandlersGet cfg (constructorName (cmd_object command))")
  case None
  then show ?thesis by (simp add: send_def beginSend_def finishSend_def)
next
  case (Some handlerDefinition)
  obtain pending st1 where b:
    "beginRebuild cfg st (getSubject command) (ch_instanceClass handlerDefinition)
       (ch_sourcingMode handlerDefinition) = (pending, st1)"
    by (cases "beginRebuild cfg st (getSubject command) (ch_instanceClass handlerDefinition)
                 (ch_sourcingMode handlerDefinition)")
  with Some show ?thesis
    by (simp add: send_def beginSend_def finishSend_def rebuildState_begin_finish Let_def)
qed

lemma beginRebuild_count:
  "length (filter isStreamEventsCalled (effects (snd (beginRebuild cfg st subject cls mode)))) =
     length (filter isStreamEventsCalled (effects st)) + (if mode = SM_NONE then 0 else 1)"
  by (simp add: beginRebuild_def Let_def split: prod.splits)

lemma beginRebuild_cold:
  assumes "coldCache (stateCache st) key"
    and "key = \<lparr>key_subject = subject, key_instanceClass = cls, key_sourcingMode = mode\<rparr>"
    and "mode \<noteq> SM_NONE"
  shows "effects (snd (beginRebuild cfg st subject cls mode)) =
           effects st @ [StreamEventsCalled subject None]
         \<and> stateCache (snd (beginRebuild cfg st subject cls mode)) = stateCache st"
  using assms
  by (cases "stateCache st")
    (simp_all add: beginRebuild_def Let_def coldCache_def fetchCached_def mergeStart_def
      streamOptions_def truthy_def)

lemma finishRebuild_effects:
  "effects (snd (finishRebuild cfg st pending)) = effects st"
  by (simp add: finishRebuild_def split: option.splits sum.splits)

lemma snd_finishRebuilds_Cons:
  "snd (finishRebuilds cfg st (pending # pendings)) =
   snd (finishRebuilds cfg (snd (finishRebuild cfg st pending)) pendings)"
  by (simp split: prod.splits)

lemma snd_beginRebuilds_Cons:
  "snd (beginRebuilds cfg st (key # keys)) =
   snd (beginRebuilds cfg
          (snd (beginRebuild cfg st (key_subject key) (key_instanceClass key)
                  (key_sourcingMode key))) keys)"
  by (simp split: prod.splits)

lemma snd_concurrentRebuilds:
  "snd (concurrentRebuilds cfg st keys) =
   snd (finishRebuilds cfg (snd (beginRebuilds cfg st keys)) (fst (beginRebuilds cfg st keys)))"
  by (simp add: concurrentRebuilds_def split: prod.splits)

lemma finishRebuilds_effects:
  "effects (snd (finishRebuilds cfg st pendings)) = effects st"
proof (induction pendings arbitrary: st)
  case Nil
  then show ?case by simp
next
  case (Cons pending pendings)
  show ?case
    using Cons.IH [of "snd (finishRebuild cfg st pending)"] finishRebuild_effects [of cfg st pending]
    by (simp only: snd_finishRebuilds_Cons)
qed

lemma beginRebuilds_count:
  "length (filter isStreamEventsCalled (effects (snd (beginRebuilds cfg st keys)))) =
   length (filter isStreamEventsCalled (effects st))
   + length (filter (\<lambda>key. key_sourcingMode key \<noteq> SM_NONE) keys)"
proof (induction keys arbitrary: st)
  case Nil
  then show ?case by simp
next
  case (Cons key keys)
  let ?st1 = "snd (beginRebuild cfg st (key_subject key) (key_instanceClass key)
                     (key_sourcingMode key))"
  from beginRebuild_count [of cfg st "key_subject key" "key_instanceClass key"
      "key_sourcingMode key"] Cons.IH [of ?st1]
  show ?case by (simp add: snd_beginRebuilds_Cons del: beginRebuilds.simps)
qed

lemma beginRebuilds_cold:
  "coldCache (stateCache st) key \<Longrightarrow> key_sourcingMode key \<noteq> SM_NONE \<Longrightarrow>
   effects (snd (beginRebuilds cfg st (replicate n key))) =
     effects st @ replicate n (StreamEventsCalled (key_subject key) None)"
proof (induction n arbitrary: st)
  case 0
  then show ?case by simp
next
  case (Suc n)
  let ?st1 = "snd (beginRebuild cfg st (key_subject key) (key_instanceClass key)
                     (key_sourcingMode key))"
  from beginRebuild_cold [OF Suc.prems(1) _ Suc.prems(2), of "key_subject key"
      "key_instanceClass key" cfg]
  have e: "effects ?st1 = effects st @ [StreamEventsCalled (key_subject key) None]"
    and c: "stateCache ?st1 = stateCache st" by simp_all
  from c Suc.prems have "coldCache (stateCache ?st1) key" by simp
  from Suc.IH [OF this Suc.prems(2)] e show ?case
    by (simp add: snd_beginRebuilds_Cons replicate_app_Cons_same del: beginRebuilds.simps)
qed

lemma snd_beginSend:
  "snd (beginSend cfg st command) =
     (case commandHandlersGet cfg (constructorName (cmd_object command)) of
        None \<Rightarrow> st
      | Some handlerDefinition \<Rightarrow>
          snd (beginRebuild cfg st (getSubject command) (ch_instanceClass handlerDefinition)
                 (ch_sourcingMode handlerDefinition)))"
  by (simp add: beginSend_def Let_def split: option.splits prod.splits)

lemma beginSend_count:
  "length (filter isStreamEventsCalled (effects (snd (beginSend cfg st command)))) =
     length (filter isStreamEventsCalled (effects st))
     + (if cacheKeyOf cfg command = None then 0 else 1)"
  by (simp add: snd_beginSend cacheKeyOf_def beginRebuild_count split: option.splits)

lemma beginSend_cold:
  assumes "cacheKeyOf cfg command = Some key"
    and "coldCache (stateCache st) key"
  shows "effects (snd (beginSend cfg st command)) =
           effects st @ [StreamEventsCalled (key_subject key) None]
         \<and> stateCache (snd (beginSend cfg st command)) = stateCache st"
proof -
  from assms(1) obtain handlerDefinition where
    h: "commandHandlersGet cfg (constructorName (cmd_object command)) = Some handlerDefinition"
    and m: "ch_sourcingMode handlerDefinition \<noteq> SM_NONE"
    and k: "key = \<lparr>key_subject = getSubject command,
                   key_instanceClass = ch_instanceClass handlerDefinition,
                   key_sourcingMode = ch_sourcingMode handlerDefinition\<rparr>"
    by (auto simp: cacheKeyOf_def split: option.splits if_splits)
  from beginRebuild_cold [OF assms(2) k m, of cfg] h k show ?thesis
    by (simp add: snd_beginSend)
qed

lemma executeCommand_reads:
  "filter isStreamEventsCalled
     (effects (snd (executeCommand cfg handlerDefinition st command metadata inst))) =
   filter isStreamEventsCalled (effects st)"
  by (auto simp: executeCommand_def publishCaptured_def Let_def split: sum.splits prod.splits)

lemma finishSend_reads:
  "filter isStreamEventsCalled (effects (snd (finishSend cfg st command metadata pendingSend))) =
   filter isStreamEventsCalled (effects st)"
proof (cases pendingSend)
  case (Thrown e)
  then show ?thesis by (simp add: finishSend_def)
next
  case (AwaitingRebuild handlerDefinition pending)
  obtain result st1 where f: "finishRebuild cfg st pending = (result, st1)"
    by (cases "finishRebuild cfg st pending")
  with finishRebuild_effects [of cfg st pending] have e: "effects st1 = effects st" by simp
  show ?thesis
  proof (cases result)
    case (Inl thrown)
    with AwaitingRebuild f e show ?thesis by (simp add: finishSend_def)
  next
    case (Inr returned)
    obtain inst lastEventId where v: "returned = (inst, lastEventId)" by (cases returned)
    with AwaitingRebuild f e Inr
      executeCommand_reads [of cfg handlerDefinition st1 command metadata inst]
    show ?thesis by (simp add: finishSend_def split: option.splits)
  qed
qed

lemma snd_beginSends_Cons:
  "snd (beginSends cfg st ((command, metadata) # rest)) =
   snd (beginSends cfg (snd (beginSend cfg st command)) rest)"
  by (simp split: prod.splits)

lemma snd_finishSends_Cons:
  "snd (finishSends cfg st (((command, metadata), pending) # pendings)) =
   snd (finishSends cfg (snd (finishSend cfg st command metadata pending)) pendings)"
  by (simp split: prod.splits)

lemma snd_concurrentSends:
  "snd (concurrentSends cfg st sends) =
   snd (finishSends cfg (snd (beginSends cfg st sends)) (fst (beginSends cfg st sends)))"
  by (simp add: concurrentSends_def split: prod.splits)

lemma finishSends_reads:
  "filter isStreamEventsCalled (effects (snd (finishSends cfg st pendings))) =
   filter isStreamEventsCalled (effects st)"
proof (induction pendings arbitrary: st)
  case Nil
  then show ?case by simp
next
  case (Cons first pendings)
  obtain command metadata pending where f: "first = ((command, metadata), pending)"
    by (cases first) auto
  show ?case
    using Cons.IH [of "snd (finishSend cfg st command metadata pending)"]
      finishSend_reads [of cfg st command metadata pending]
    by (simp only: f snd_finishSends_Cons)
qed

lemma beginSends_count:
  "length (filter isStreamEventsCalled (effects (snd (beginSends cfg st sends)))) =
   length (filter isStreamEventsCalled (effects st))
   + length (filter (\<lambda>(command, metadata). cacheKeyOf cfg command \<noteq> None) sends)"
proof (induction sends arbitrary: st)
  case Nil
  then show ?case by simp
next
  case (Cons first sends)
  obtain command metadata where f: "first = (command, metadata)" by (cases first)
  from beginSend_count [of cfg st command] Cons.IH [of "snd (beginSend cfg st command)"]
  show ?case by (simp add: f snd_beginSends_Cons del: beginSends.simps)
qed

lemma beginSends_cold:
  "\<forall>(command, metadata) \<in> set sends. cacheKeyOf cfg command = Some key \<Longrightarrow>
   coldCache (stateCache st) key \<Longrightarrow>
   effects (snd (beginSends cfg st sends)) =
     effects st @ replicate (length sends) (StreamEventsCalled (key_subject key) None)"
proof (induction sends arbitrary: st)
  case Nil
  then show ?case by simp
next
  case (Cons first sends)
  obtain command metadata where f: "first = (command, metadata)" by (cases first)
  let ?st1 = "snd (beginSend cfg st command)"
  from Cons.prems(1) f have k: "cacheKeyOf cfg command = Some key"
    and rest: "\<forall>(command, metadata) \<in> set sends. cacheKeyOf cfg command = Some key"
    by simp_all
  from beginSend_cold [OF k Cons.prems(2)]
  have e: "effects ?st1 = effects st @ [StreamEventsCalled (key_subject key) None]"
    and c: "stateCache ?st1 = stateCache st" by simp_all
  from c Cons.prems(2) have "coldCache (stateCache ?st1) key" by simp
  from Cons.IH [OF rest this] e show ?case
    by (simp add: f snd_beginSends_Cons replicate_app_Cons_same del: beginSends.simps)
qed

text \<open>
  C5, as the code has it. Neither cache has a critical section per key, and a \<open>send\<close>
  whose command has a handler of a sourcing mode other than \<open>NONE\<close> calls
  \<open>streamEvents\<close> once for its rebuild, before its first suspension; what it does after
  the suspension calls \<open>streamEvents\<close> no more (a \<open>send\<close> on its own is its first part
  followed by its second part, and so is a rebuild). So among the \<open>send\<close> calls started in
  one turn, each of those that rebuild reads the stream for itself: \<open>N\<close> of them for one
  cache key read it \<open>N\<close> times, and when the cache holds nothing for the key each of
  the \<open>N\<close> reads starts at the beginning of the stream. The same holds of the rebuilds
  alone, where a rebuild of the sourcing mode \<open>NONE\<close> reads nothing.
\<close>

theorem C5_one_read_per_rebuild:
  "send cfg st command metadata =
     (case beginSend cfg st command of
        (pending, st1) \<Rightarrow> finishSend cfg st1 command metadata pending)
   \<and> filter isStreamEventsCalled
        (effects (snd (finishSend cfg st command metadata pendingSend))) =
       filter isStreamEventsCalled (effects st)
   \<and> length (filter isStreamEventsCalled (effects (snd (concurrentSends cfg st sends)))) =
       length (filter isStreamEventsCalled (effects st))
       + length (filter (\<lambda>(command, metadata). cacheKeyOf cfg command \<noteq> None) sends)
   \<and> ((\<forall>(command, metadata) \<in> set sends. cacheKeyOf cfg command = Some key)
       \<and> coldCache (stateCache st) key \<longrightarrow>
        filter isStreamEventsCalled (effects (snd (concurrentSends cfg st sends))) =
          filter isStreamEventsCalled (effects st)
          @ replicate (length sends) (StreamEventsCalled (key_subject key) None))
   \<and> rebuildState cfg st subject cls mode =
       (case beginRebuild cfg st subject cls mode of
          (pending, st1) \<Rightarrow> finishRebuild cfg st1 pending)
   \<and> length (filter isStreamEventsCalled (effects (snd (concurrentRebuilds cfg st keys)))) =
       length (filter isStreamEventsCalled (effects st))
       + length (filter (\<lambda>key. key_sourcingMode key \<noteq> SM_NONE) keys)
   \<and> (coldCache (stateCache st) key \<and> key_sourcingMode key \<noteq> SM_NONE \<longrightarrow>
        effects (snd (concurrentRebuilds cfg st (replicate n key))) =
          effects st @ replicate n (StreamEventsCalled (key_subject key) None))"
proof (intro conjI impI)
  show "send cfg st command metadata =
     (case beginSend cfg st command of
        (pending, st1) \<Rightarrow> finishSend cfg st1 command metadata pending)"
    by (rule send_begin_finish)
next
  show "filter isStreamEventsCalled
        (effects (snd (finishSend cfg st command metadata pendingSend))) =
       filter isStreamEventsCalled (effects st)"
    by (rule finishSend_reads)
next
  show "length (filter isStreamEventsCalled (effects (snd (concurrentSends cfg st sends)))) =
       length (filter isStreamEventsCalled (effects st))
       + length (filter (\<lambda>(command, metadata). cacheKeyOf cfg command \<noteq> None) sends)"
    using beginSends_count [of cfg st sends]
    by (simp add: snd_concurrentSends finishSends_reads)
next
  assume "(\<forall>(command, metadata) \<in> set sends. cacheKeyOf cfg command = Some key)
       \<and> coldCache (stateCache st) key"
  then have "effects (snd (beginSends cfg st sends)) =
     effects st @ replicate (length sends) (StreamEventsCalled (key_subject key) None)"
    by (simp add: beginSends_cold)
  then show "filter isStreamEventsCalled (effects (snd (concurrentSends cfg st sends))) =
          filter isStreamEventsCalled (effects st)
          @ replicate (length sends) (StreamEventsCalled (key_subject key) None)"
    by (simp add: snd_concurrentSends finishSends_reads)
next
  show "rebuildState cfg st subject cls mode =
       (case beginRebuild cfg st subject cls mode of
          (pending, st1) \<Rightarrow> finishRebuild cfg st1 pending)"
    by (rule rebuildState_begin_finish)
next
  show "length (filter isStreamEventsCalled (effects (snd (concurrentRebuilds cfg st keys)))) =
       length (filter isStreamEventsCalled (effects st))
       + length (filter (\<lambda>key. key_sourcingMode key \<noteq> SM_NONE) keys)"
    using beginRebuilds_count [of cfg st keys]
    by (simp add: snd_concurrentRebuilds finishRebuilds_effects)
next
  assume "coldCache (stateCache st) key \<and> key_sourcingMode key \<noteq> SM_NONE"
  then have "effects (snd (beginRebuilds cfg st (replicate n key))) =
     effects st @ replicate n (StreamEventsCalled (key_subject key) None)"
    by (simp add: beginRebuilds_cold)
  then show "effects (snd (concurrentRebuilds cfg st (replicate n key))) =
          effects st @ replicate n (StreamEventsCalled (key_subject key) None)"
    by (simp add: snd_concurrentRebuilds finishRebuilds_effects)
qed

text \<open>
  On the sample, with one stored event and a cold cache: three \<open>Rename\<close> commands sent
  in one turn make three reads from the beginning of the stream, and so do three
  rebuilds of their key; a \<open>Touch\<close> command, whose sourcing mode is \<open>NONE\<close>, adds no read
  to that of a \<open>Rename\<close> command sent with it.
\<close>

theorem C5_one_read_per_rebuild_witness:
  "cacheKeyOf sampleConfig (sampleCommand ''Rename'' None) = Some sampleKey
   \<and> cacheKeyOf sampleConfig (sampleCommand ''Touch'' None) = None
   \<and> coldCache (stateCache (sampleState [sampleEvent ''event-0'' ''Created'' ''a''])) sampleKey
   \<and> key_sourcingMode sampleKey \<noteq> SM_NONE
   \<and> filter isStreamEventsCalled
        (effects (snd (concurrentSends sampleConfig
                         (sampleState [sampleEvent ''event-0'' ''Created'' ''a''])
                         (replicate 3 (sampleCommand ''Rename'' None, Map.empty)))))
      = replicate 3 (StreamEventsCalled ''/item/1'' None)
   \<and> length (filter isStreamEventsCalled
        (effects (snd (concurrentSends sampleConfig
                         (sampleState [sampleEvent ''event-0'' ''Created'' ''a''])
                         [(sampleCommand ''Touch'' None, Map.empty),
                          (sampleCommand ''Rename'' None, Map.empty)])))) = 1
   \<and> effects (snd (concurrentRebuilds sampleConfig
                     (sampleState [sampleEvent ''event-0'' ''Created'' ''a''])
                     (replicate 3 sampleKey)))
      = replicate 3 (StreamEventsCalled ''/item/1'' None)"
proof -
  let ?st = "sampleState [sampleEvent ''event-0'' ''Created'' ''a'']"
  let ?rename = "sampleCommand ''Rename'' None"
  let ?touch = "sampleCommand ''Touch'' None"
  have r: "cacheKeyOf sampleConfig ?rename = Some sampleKey"
    by (simp add: cacheKeyOf_def commandHandlersGet_def sampleConfig_def sampleCommand_def
        sampleKey_def)
  have t: "cacheKeyOf sampleConfig ?touch = None"
    by (simp add: cacheKeyOf_def commandHandlersGet_def sampleConfig_def sampleCommand_def)
  have c: "coldCache (stateCache ?st) sampleKey"
    by (simp add: coldCache_def sampleState_def)
  have m: "key_sourcingMode sampleKey \<noteq> SM_NONE"
    by (simp add: sampleKey_def)
  have e: "effects ?st = []" "key_subject sampleKey = ''/item/1''"
    by (simp_all add: sampleState_def sampleKey_def)
  have three:
    "\<forall>(command, metadata) \<in> set (replicate 3 (?rename, Map.empty :: unit Record)).
       cacheKeyOf sampleConfig command = Some sampleKey"
    by (simp add: r)
  note same =
    C5_one_read_per_rebuild [where cfg = sampleConfig and st = ?st and command = ?rename
        and metadata = Map.empty and pendingSend = "Thrown (Error [])"
        and sends = "replicate 3 (?rename, Map.empty)" and key = sampleKey
        and subject = "''/item/1''" and cls = "''Item''" and mode = SM_LOCAL
        and keys = "[]" and n = 3]
  note mixed =
    C5_one_read_per_rebuild [where cfg = sampleConfig and st = ?st and command = ?rename
        and metadata = Map.empty and pendingSend = "Thrown (Error [])"
        and sends = "[(?touch, Map.empty), (?rename, Map.empty)]" and key = sampleKey
        and subject = "''/item/1''" and cls = "''Item''" and mode = SM_LOCAL
        and keys = "[]" and n = 3]
  have "filter isStreamEventsCalled
          (effects (snd (concurrentSends sampleConfig ?st (replicate 3 (?rename, Map.empty))))) =
        filter isStreamEventsCalled (effects ?st)
        @ replicate (length (replicate 3 (?rename, Map.empty :: unit Record)))
            (StreamEventsCalled (key_subject sampleKey) None)"
    by (rule same [THEN conjunct2, THEN conjunct2, THEN conjunct2, THEN conjunct1, THEN mp])
      (intro conjI three c)
  then have sends3: "filter isStreamEventsCalled
          (effects (snd (concurrentSends sampleConfig ?st (replicate 3 (?rename, Map.empty)))))
        = replicate 3 (StreamEventsCalled ''/item/1'' None)"
    by (simp add: e)
  have "length (filter isStreamEventsCalled
          (effects (snd (concurrentSends sampleConfig ?st
                           [(?touch, Map.empty), (?rename, Map.empty)])))) =
        length (filter isStreamEventsCalled (effects ?st))
        + length (filter (\<lambda>(command, metadata). cacheKeyOf sampleConfig command \<noteq> None)
                    [(?touch, Map.empty :: unit Record), (?rename, Map.empty)])"
    by (rule mixed [THEN conjunct2, THEN conjunct2, THEN conjunct1])
  then have sends2: "length (filter isStreamEventsCalled
          (effects (snd (concurrentSends sampleConfig ?st
                           [(?touch, Map.empty), (?rename, Map.empty)])))) = 1"
    by (simp add: e r t)
  have "effects (snd (concurrentRebuilds sampleConfig ?st (replicate 3 sampleKey))) =
        effects ?st @ replicate 3 (StreamEventsCalled (key_subject sampleKey) None)"
    by (rule same [THEN conjunct2, THEN conjunct2, THEN conjunct2, THEN conjunct2,
          THEN conjunct2, THEN conjunct2, THEN mp]) (intro conjI c m)
  then have rebuilds3:
    "effects (snd (concurrentRebuilds sampleConfig ?st (replicate 3 sampleKey)))
     = replicate 3 (StreamEventsCalled ''/item/1'' None)"
    by (simp add: e)
  show ?thesis
    by (intro conjI) (rule r t c m sends3 sends2 rebuilds3)+
qed

text \<open>
  C5 as stated fails: two rebuilds of one key, started in one turn against a store of
  two events, each stream both events from the beginning and each return the rebuilt
  state.
\<close>

theorem C5_never_N_times_counterexample:
  "concurrentRebuilds sampleConfig
     (sampleState [sampleEvent ''event-0'' ''Created'' ''a'',
                   sampleEvent ''event-1'' ''Renamed'' ''b''])
     [sampleKey, sampleKey]
   = ([Inr (Some (Item ''b''), Some ''event-1''), Inr (Some (Item ''b''), Some ''event-1'')],
      (sampleState [sampleEvent ''event-0'' ''Created'' ''a'',
                    sampleEvent ''event-1'' ''Renamed'' ''b''])
      \<lparr>stateCache := InMemoryStateCache
         \<lparr>cache_entries =
            [(''/item/1:Item:LOCAL'',
              \<lparr>cv_eventId = Some ''event-1'', cv_instance = Some (Item ''b''),
               cv_sourcedSubjectIds = [(''/item/1'', ''event-1'')]\<rparr>)],
          cache_capacity = 1000\<rparr>,
       effects := [StreamEventsCalled ''/item/1'' None, StreamEventsCalled ''/item/1'' None]\<rparr>)
   \<and> map (map_option pending_streamed)
        (fst (beginRebuilds sampleConfig
               (sampleState [sampleEvent ''event-0'' ''Created'' ''a'',
                             sampleEvent ''event-1'' ''Renamed'' ''b''])
               [sampleKey, sampleKey]))
      = [Some [sampleEvent ''event-0'' ''Created'' ''a'',
               sampleEvent ''event-1'' ''Renamed'' ''b''],
         Some [sampleEvent ''event-0'' ''Created'' ''a'',
               sampleEvent ''event-1'' ''Renamed'' ''b'']]"
  by (simp add: concurrentRebuilds_def beginRebuild_def finishRebuild_def sampleKey_def
      router_defs sample_defs)

section \<open>Properties of the event handling processor\<close>

lemma current_advance:
  "current (tracker (advance cfg st rawEvent)) (p_group cfg) (p_partition cfg) =
     \<lparr>progress_eventId = Some (ev_id rawEvent)\<rparr>"
  by (simp add: advance_def current_def proceed_def)

text \<open>
  C7. Let the loop of \<open>run\<close> reach a raw event (the stop flag is not set) whose
  sequence id, resolved from the raw event alone, maps to a partition other than the
  processor's. Then the event is only passed over: no action is added, so no event
  handler is called, and the handlers' world is untouched; progress for the processor's
  group and partition becomes the event's id; and the loop goes on to the next event
  from that state.
\<close>

theorem C7_other_partition:
  assumes "\<not> stopRequested st"
    and "resolveSequenceId cfg rawEvent None rawEvent = Inr sequenceId"
    and "p_partitionKeyResolver cfg sequenceId \<noteq> p_partition cfg"
  shows "handleObserved cfg st rawEvent = (None, advance cfg st rawEvent)
       \<and> actions (advance cfg st rawEvent) = actions st
       \<and> world (advance cfg st rawEvent) = world st
       \<and> current (tracker (advance cfg st rawEvent)) (p_group cfg) (p_partition cfg) =
           \<lparr>progress_eventId = Some (ev_id rawEvent)\<rparr>
       \<and> observeLoop cfg st (rawEvent # rest) = observeLoop cfg (advance cfg st rawEvent) rest"
  using assms by (simp add: handleObserved_def current_advance) (simp add: advance_def)

text \<open>On the sample: an event of subject \<open>/item/2\<close>, which maps to partition 1.\<close>

theorem C7_other_partition_witness:
  "\<not> stopRequested idle
   \<and> resolveSequenceId sampleProcessor elsewhere None elsewhere = Inr ''/item/2''
   \<and> p_partitionKeyResolver sampleProcessor ''/item/2'' \<noteq> p_partition sampleProcessor
   \<and> handleObserved sampleProcessor idle elsewhere = (None, advance sampleProcessor idle elsewhere)
   \<and> actions (advance sampleProcessor idle elsewhere) = []
   \<and> world (advance sampleProcessor idle elsewhere) = 0
   \<and> current (tracker (advance sampleProcessor idle elsewhere)) ''items'' 0
      = \<lparr>progress_eventId = Some ''event-1''\<rparr>
   \<and> observeLoop sampleProcessor idle [elsewhere, sampleEvent ''event-2'' ''Created'' ''a'']
      = observeLoop sampleProcessor (advance sampleProcessor idle elsewhere)
          [sampleEvent ''event-2'' ''Created'' ''a'']"
proof -
  have s: "\<not> stopRequested idle" by (simp add: idle_def)
  have r: "resolveSequenceId sampleProcessor elsewhere None elsewhere = Inr ''/item/2''"
    by (simp add: resolveSequenceId_def sample_processor_defs elsewhere_def)
  have p: "p_partitionKeyResolver sampleProcessor ''/item/2'' \<noteq> p_partition sampleProcessor"
    by (simp add: sampleProcessor_def)
  have g: "p_group sampleProcessor = ''items''" "p_partition sampleProcessor = 0"
    "actions idle = []" "world idle = 0" "ev_id elsewhere = ''event-1''"
    by (simp_all add: sampleProcessor_def idle_def elsewhere_def sampleEvent_def)
  show ?thesis
    using C7_other_partition [OF s r p, of "[sampleEvent ''event-2'' ''Created'' ''a'']"] s r p
    by (simp add: g)
qed











end
